theory Spec2Isabelle
  imports Main
begin

section \<open>JavaScript values\<close>

text \<open>
  The parser of \<^verbatim>\<open>parseSheets.ts\<close> works on cell values of a spreadsheet. At run time a
  cell value is \<^verbatim>\<open>null\<close> (an empty cell), a boolean, a number or a string; a field of a
  member record that no column was found for is \<^verbatim>\<open>undefined\<close>. The TypeScript casts
  (\<^verbatim>\<open>as string\<close>, \<^verbatim>\<open>as boolean\<close>) are erased at run time, so every field that holds a
  cell value is a \<open>jsval\<close> here.

  Numbers are modelled as integers (the counts of a sheet): a number cell holds an
  integer that JavaScript prints in plain decimal notation, and arithmetic on numerals
  read from strings is exact where JavaScript rounds to a binary floating point number.
  A string is a list of UTF-16 code units, and the code units of the model are those
  below U+0100 (Basic Latin and Latin-1 Supplement), one \<open>char\<close> each; a string with a
  code unit from U+0100 on is not a value of the model. On these strings white space,
  trimming, letter case and the reading of numerals are those of JavaScript.
\<close>

datatype jsval = JUndefined | JNull | JBool bool | JNum int | JStr string

text \<open>The exceptions the pipeline can raise: the two range errors of the sheet library's
  \<^verbatim>\<open>getCell\<close>, and the TypeError of a method call or property access on a value that
  does not have it.\<close>

datatype error = MinCoordinate | OutOfBounds | TypeError

text \<open>ToBoolean: what \<^verbatim>\<open>if (v)\<close> and \<^verbatim>\<open>!v\<close> test.\<close>

definition truthy :: "jsval \<Rightarrow> bool" where
  "truthy v = (case v of
      JUndefined \<Rightarrow> False
    | JNull \<Rightarrow> False
    | JBool b \<Rightarrow> b
    | JNum n \<Rightarrow> n \<noteq> 0
    | JStr s \<Rightarrow> s \<noteq> [])"

definition digitChar :: "nat \<Rightarrow> char" where
  "digitChar d = ''0123456789'' ! d"

fun showNat :: "nat \<Rightarrow> string" where
  "showNat n = (if n < 10 then [digitChar n] else showNat (n div 10) @ [digitChar (n mod 10)])"

declare showNat.simps [simp del]

definition showInt :: "int \<Rightarrow> string" where
  "showInt i = (if i < 0 then CHR ''-'' # showNat (nat (- i)) else showNat (nat i))"

text \<open>ToString, as a template literal and \<^verbatim>\<open>toString()\<close> compute it.\<close>

definition toStr :: "jsval \<Rightarrow> string" where
  "toStr v = (case v of
      JUndefined \<Rightarrow> ''undefined''
    | JNull \<Rightarrow> ''null''
    | JBool b \<Rightarrow> (if b then ''true'' else ''false'')
    | JNum n \<Rightarrow> showInt n
    | JStr s \<Rightarrow> s)"

text \<open>White space and line terminators below U+0100: tab, line feed, vertical tab, form
  feed, carriage return, space and the no-break space U+00A0. \<^verbatim>\<open>trim\<close>, \<^verbatim>\<open>parseInt\<close> and
  the conversion of a string to a number skip them.\<close>

definition isWhite :: "char \<Rightarrow> bool" where
  "isWhite c = (c = CHR '' '' \<or> c = CHR 0x09 \<or> c = CHR 0x0A \<or> c = CHR 0x0B
                \<or> c = CHR 0x0C \<or> c = CHR 0x0D \<or> c = CHR 0xA0)"

definition trim :: "string \<Rightarrow> string" where
  "trim s = rev (dropWhile isWhite (rev (dropWhile isWhite s)))"

text \<open>\<^verbatim>\<open>toLowerCase\<close> below U+0100: the capital letters are A to Z and U+00C0 to U+00DE
  without the multiplication sign U+00D7, and the small letter is 32 further on.\<close>

definition lowerChar :: "char \<Rightarrow> char" where
  "lowerChar c = (let n = (of_char c :: nat) in
      if (65 \<le> n \<and> n \<le> 90) \<or> (192 \<le> n \<and> n \<le> 222 \<and> n \<noteq> 215) then char_of (n + 32) else c)"

definition toLowerCase :: "string \<Rightarrow> string" where
  "toLowerCase s = map lowerChar s"

subsection \<open>parseInt\<close>

text \<open>
  \<^verbatim>\<open>parseInt(value)\<close> with no radix: the argument is converted to a string, leading
  white space is skipped, a sign is read, a prefix \<^verbatim>\<open>0x\<close> or \<^verbatim>\<open>0X\<close> selects radix 16
  (radix 10 otherwise), and the longest run of digits of that radix is the number.
  No digit at all gives NaN, which is \<open>None\<close> here.
\<close>

definition digitVal :: "char \<Rightarrow> nat option" where
  "digitVal c = (let n = (of_char c :: nat) in
      if 48 \<le> n \<and> n \<le> 57 then Some (n - 48)
      else if 97 \<le> n \<and> n \<le> 122 then Some (n - 87)
      else if 65 \<le> n \<and> n \<le> 90 then Some (n - 55)
      else None)"

fun parseDigits :: "nat \<Rightarrow> nat option \<Rightarrow> string \<Rightarrow> nat option" where
  "parseDigits radix acc [] = acc"
| "parseDigits radix acc (c # cs) =
     (case digitVal c of
        None \<Rightarrow> acc
      | Some d \<Rightarrow>
          if d < radix
          then parseDigits radix (Some ((case acc of None \<Rightarrow> 0 | Some a \<Rightarrow> a) * radix + d)) cs
          else acc)"

definition parseIntStr :: "string \<Rightarrow> int option" where
  "parseIntStr s =
     (let t = dropWhile isWhite s;
          neg = (case t of [] \<Rightarrow> False | c # _ \<Rightarrow> c = CHR ''-'');
          u = (case t of [] \<Rightarrow> [] | c # r \<Rightarrow> if c = CHR ''-'' \<or> c = CHR ''+'' then r else t);
          hex = (case u of
                   a # b # _ \<Rightarrow> a = CHR ''0'' \<and> (b = CHR ''x'' \<or> b = CHR ''X'')
                 | _ \<Rightarrow> False);
          radix = (if hex then 16 else 10);
          w = (if hex then drop 2 u else u)
      in case parseDigits radix None w of
           None \<Rightarrow> None
         | Some n \<Rightarrow> Some (if neg then - int n else int n))"

definition parseInt :: "jsval \<Rightarrow> int option" where
  "parseInt v = parseIntStr (toStr v)"

section \<open>Classification of a raw count\<close>

datatype Change = NoChange | Passed | Failed

text \<open>
  \<^verbatim>\<open>parseEvent\<close>, lines 57 to 63. \<open>num\<close> is \<open>None\<close> for NaN, so \<^verbatim>\<open>isNaN(num)\<close> is
  \<open>num = None\<close> and \<^verbatim>\<open>num > 0\<close> is false for NaN.
\<close>

definition parseEvent :: "jsval \<Rightarrow> bool \<Rightarrow> Change" where
  "parseEvent val ignoreBecauseOfConfig =
     (if ignoreBecauseOfConfig then NoChange
      else let num = parseInt val in
        if val = JUndefined \<or> val = JNull \<or> val = JStr [] \<or> num = None then NoChange
        else if (case num of None \<Rightarrow> False | Some n \<Rightarrow> 0 < n) then Failed
        else Passed)"

section \<open>The sheet\<close>

text \<open>
  A worksheet of the library \<^verbatim>\<open>google-spreadsheet\<close>, after \<^verbatim>\<open>loadCells()\<close>: its title,
  its hidden flag, its size and its cells. \<open>cells\<close> lists the rows that hold a value;
  a cell of the grid that the list does not reach is empty, and the value of an empty
  cell is \<^verbatim>\<open>null\<close>.
\<close>

record Sheet =
  title :: string
  hidden :: bool
  rowCount :: nat
  columnCount :: nat
  cells :: "jsval list list"

definition cellValue :: "Sheet \<Rightarrow> nat \<Rightarrow> nat \<Rightarrow> jsval" where
  "cellValue sheet r c =
     (if r < length (cells sheet) \<and> c < length (cells sheet ! r) then cells sheet ! r ! c
      else JNull)"

text \<open>
  \<^verbatim>\<open>sheet.getCell(rowIndex, columnIndex).value\<close>. The library's \<^verbatim>\<open>getCell\<close> throws
  \<^verbatim>\<open>Min coordinate is 0, 0\<close> for a negative index and \<^verbatim>\<open>Out of bounds\<close> for an index
  at or past the sheet's size. The indices are integers: the source computes
  \<^verbatim>\<open>row - 1\<close> and \<^verbatim>\<open>configColumn + 1\<close>.
\<close>

definition getCell :: "Sheet \<Rightarrow> int \<Rightarrow> int \<Rightarrow> error + jsval" where
  "getCell sheet rowIndex columnIndex =
     (if rowIndex < 0 \<or> columnIndex < 0 then Inl MinCoordinate
      else if int (rowCount sheet) \<le> rowIndex \<or> int (columnCount sheet) \<le> columnIndex
        then Inl OutOfBounds
      else Inr (cellValue sheet (nat rowIndex) (nat columnIndex)))"

subsection \<open>Loose equality\<close>

text \<open>
  The conversion of a string to a number, for \<^verbatim>\<open>==\<close> between a string and a number or
  boolean. White space is trimmed; the empty string is 0; a numeral with the prefix
  \<^verbatim>\<open>0x\<close>, \<^verbatim>\<open>0o\<close> or \<^verbatim>\<open>0b\<close> (in either case, unsigned) is read in its radix; every other
  string is read as a decimal numeral: a sign, digits with an optional fraction, and an
  optional exponent. \<^verbatim>\<open>Infinity\<close> and every string that is no numeral (NaN) equal no
  number. As the numbers of the model are integers, the result is the integer the
  string denotes, and \<open>None\<close> when it denotes none.
\<close>

definition allDigits :: "nat \<Rightarrow> string \<Rightarrow> bool" where
  "allDigits radix w =
     (w \<noteq> [] \<and> list_all (\<lambda>c. case digitVal c of None \<Rightarrow> False | Some d \<Rightarrow> d < radix) w)"

definition digitsValue :: "nat \<Rightarrow> string \<Rightarrow> nat" where
  "digitsValue radix w = (case parseDigits radix None w of None \<Rightarrow> 0 | Some v \<Rightarrow> v)"

definition isDecDigit :: "char \<Rightarrow> bool" where
  "isDecDigit c = (case digitVal c of None \<Rightarrow> False | Some d \<Rightarrow> d < 10)"

text \<open>The radix of a numeral with a prefix.\<close>

definition prefixRadix :: "string \<Rightarrow> nat option" where
  "prefixRadix t =
     (case t of
        a # b # _ \<Rightarrow>
          if a \<noteq> CHR ''0'' then None
          else if b = CHR ''x'' \<or> b = CHR ''X'' then Some 16
          else if b = CHR ''o'' \<or> b = CHR ''O'' then Some 8
          else if b = CHR ''b'' \<or> b = CHR ''B'' then Some 2
          else None
      | _ \<Rightarrow> None)"

text \<open>The exponent part of a decimal numeral: nothing, or \<^verbatim>\<open>e\<close> or \<^verbatim>\<open>E\<close>, a sign and
  digits. \<open>None\<close> when the text is neither.\<close>

definition exponentValue :: "string \<Rightarrow> int option" where
  "exponentValue r =
     (case r of
        [] \<Rightarrow> Some 0
      | c # e \<Rightarrow>
          if c \<noteq> CHR ''e'' \<and> c \<noteq> CHR ''E'' then None
          else
            let neg = (case e of [] \<Rightarrow> False | d # _ \<Rightarrow> d = CHR ''-'');
                ds = (case e of [] \<Rightarrow> [] | d # r1 \<Rightarrow> if d = CHR ''-'' \<or> d = CHR ''+'' then r1 else e)
            in if allDigits 10 ds
               then Some (if neg then - int (digitsValue 10 ds) else int (digitsValue 10 ds))
               else None)"

text \<open>
  An unsigned decimal numeral: digits, a point and digits, an exponent, with a digit
  before or after the point. Its value is the digits times a power of ten; \<open>None\<close> when
  the text is no numeral or the value is no integer.
\<close>

definition decimalValue :: "string \<Rightarrow> int option" where
  "decimalValue u =
     (let intPart = takeWhile isDecDigit u;
          r1 = dropWhile isDecDigit u;
          hasPoint = (case r1 of [] \<Rightarrow> False | c # _ \<Rightarrow> c = CHR ''.'');
          fracPart = (if hasPoint then takeWhile isDecDigit (tl r1) else []);
          r2 = (if hasPoint then dropWhile isDecDigit (tl r1) else r1);
          mantissa = int (digitsValue 10 (intPart @ fracPart))
      in if intPart = [] \<and> fracPart = [] then None
         else case exponentValue r2 of
                None \<Rightarrow> None
              | Some e \<Rightarrow>
                  let k = e - int (length fracPart) in
                  if 0 \<le> k then Some (mantissa * 10 ^ nat k)
                  else if mantissa mod 10 ^ nat (- k) = 0 then Some (mantissa div 10 ^ nat (- k))
                  else None)"

definition strToNumber :: "string \<Rightarrow> int option" where
  "strToNumber s =
     (let t = trim s;
          neg = (case t of [] \<Rightarrow> False | c # _ \<Rightarrow> c = CHR ''-'');
          u = (case t of [] \<Rightarrow> [] | c # r \<Rightarrow> if c = CHR ''-'' \<or> c = CHR ''+'' then r else t)
      in if t = [] then Some 0
         else case prefixRadix t of
                Some radix \<Rightarrow>
                  if allDigits radix (drop 2 t) then Some (int (digitsValue radix (drop 2 t)))
                  else None
              | None \<Rightarrow>
                  (case decimalValue u of
                     None \<Rightarrow> None
                   | Some v \<Rightarrow> Some (if neg then - v else v)))"

text \<open>The operator \<^verbatim>\<open>==\<close> on primitive values.\<close>

definition looseEq :: "jsval \<Rightarrow> jsval \<Rightarrow> bool" where
  "looseEq x y = (case (x, y) of
      (JUndefined, JUndefined) \<Rightarrow> True
    | (JUndefined, JNull) \<Rightarrow> True
    | (JNull, JUndefined) \<Rightarrow> True
    | (JNull, JNull) \<Rightarrow> True
    | (JNum a, JNum b) \<Rightarrow> a = b
    | (JStr a, JStr b) \<Rightarrow> a = b
    | (JBool a, JBool b) \<Rightarrow> a = b
    | (JNum a, JStr b) \<Rightarrow> strToNumber b = Some a
    | (JStr a, JNum b) \<Rightarrow> strToNumber a = Some b
    | (JBool a, JNum b) \<Rightarrow> (if a then 1 else 0) = b
    | (JNum a, JBool b) \<Rightarrow> a = (if b then 1 else 0)
    | (JBool a, JStr b) \<Rightarrow> strToNumber b = Some (if a then 1 else 0)
    | (JStr a, JBool b) \<Rightarrow> strToNumber a = Some (if b then 1 else 0)
    | _ \<Rightarrow> False)"

section \<open>Operations: \<^verbatim>\<open>class Op\<close>\<close>

record OpMember =
  uniqueName :: jsval
  displayName :: jsval
  callsign :: jsval
  type_f :: jsval
  bolters :: jsval
  wire :: jsval
  lsoGrade :: jsval
  combatDeaths :: jsval
  promotions :: jsval
  remarks :: jsval

record OpConfig =
  countBolters :: jsval
  countDeaths :: jsval

text \<open>An \<^verbatim>\<open>Op\<close> object. Its reference to the sheet is passed to the functions that
  read the sheet instead of being stored.\<close>

record Op =
  name :: string
  members :: "OpMember list"
  timeslot :: jsval
  config :: OpConfig
  startRow :: nat

text \<open>The keys of \<^verbatim>\<open>columNameMap\<close> (every field of \<^verbatim>\<open>OpMember\<close> but \<^verbatim>\<open>displayName\<close>).\<close>

datatype FieldKey =
  K_uniqueName | K_callsign | K_type | K_bolters | K_wire | K_lsoGrade
  | K_combatDeaths | K_promotions | K_remarks

definition columNameMap :: "(FieldKey \<times> string) list" where
  "columNameMap =
     [(K_uniqueName, ''Name''), (K_callsign, ''Callsign''), (K_type, ''Type''),
      (K_bolters, ''Bolters''), (K_wire, ''Wire No.''), (K_lsoGrade, ''LSO Grade''),
      (K_combatDeaths, ''Combat Deaths''), (K_promotions, ''Promotions''),
      (K_remarks, ''Remarks'')]"

text \<open>A \<^verbatim>\<open>ColumnMap\<close> object: the keys that were set, in the order they were set.\<close>

type_synonym ColumnMap = "(FieldKey \<times> nat) list"

definition defaultConfig :: OpConfig where
  "defaultConfig = \<lparr>countBolters = JBool True, countDeaths = JBool True\<rparr>"

subsection \<open>\<^verbatim>\<open>getOpConfig\<close>, lines 148 to 175\<close>

text \<open>The test of line 155 on a cell value.\<close>

definition isConfigCell :: "jsval \<Rightarrow> bool" where
  "isConfigCell v = (truthy v \<and> toLowerCase (toStr v) = ''config'')"

text \<open>The inner loop of lines 153 to 160: the first column of the row that holds the
  marker.\<close>

fun findConfigColumn :: "Sheet \<Rightarrow> nat \<Rightarrow> nat list \<Rightarrow> error + nat option" where
  "findConfigColumn sheet row [] = Inr None"
| "findConfigColumn sheet row (column # columns) =
     (case getCell sheet (int row) (int column) of
        Inl e \<Rightarrow> Inl e
      | Inr v \<Rightarrow>
          if isConfigCell v then Inr (Some column)
          else findConfigColumn sheet row columns)"

text \<open>The outer loop of lines 152 to 162: \<open>None\<close> is \<^verbatim>\<open>configRow == -1\<close>.\<close>

fun findConfig :: "Sheet \<Rightarrow> nat list \<Rightarrow> error + (nat \<times> nat) option" where
  "findConfig sheet [] = Inr None"
| "findConfig sheet (row # rows) =
     (case findConfigColumn sheet row [0..<columnCount sheet] of
        Inl e \<Rightarrow> Inl e
      | Inr (Some column) \<Rightarrow> Inr (Some (row, column))
      | Inr None \<Rightarrow> findConfig sheet rows)"

text \<open>The loop of lines 166 to 172 over the rows below the marker.\<close>

fun readConfig :: "Sheet \<Rightarrow> nat \<Rightarrow> nat list \<Rightarrow> OpConfig \<Rightarrow> error + OpConfig" where
  "readConfig sheet configColumn [] cfg = Inr cfg"
| "readConfig sheet configColumn (row # rows) cfg =
     (case getCell sheet (int row) (int configColumn) of
        Inl e \<Rightarrow> Inl e
      | Inr v \<Rightarrow>
          if \<not> truthy v then readConfig sheet configColumn rows cfg
          else
            let cellVal = toLowerCase (toStr v) in
            case (if cellVal = ''count bolters''
                  then (case getCell sheet (int row) (int configColumn + 1) of
                          Inl e \<Rightarrow> Inl e
                        | Inr b \<Rightarrow> Inr (cfg\<lparr>countBolters := b\<rparr>))
                  else Inr cfg) of
              Inl e \<Rightarrow> Inl e
            | Inr cfg1 \<Rightarrow>
                (case (if cellVal = ''count deaths''
                       then (case getCell sheet (int row) (int configColumn + 1) of
                               Inl e \<Rightarrow> Inl e
                             | Inr b \<Rightarrow> Inr (cfg1\<lparr>countDeaths := b\<rparr>))
                       else Inr cfg1) of
                   Inl e \<Rightarrow> Inl e
                 | Inr cfg2 \<Rightarrow> readConfig sheet configColumn rows cfg2))"

definition getOpConfig :: "Sheet \<Rightarrow> error + OpConfig" where
  "getOpConfig sheet =
     (case findConfig sheet [0..<rowCount sheet] of
        Inl e \<Rightarrow> Inl e
      | Inr None \<Rightarrow> Inr defaultConfig
      | Inr (Some (configRow, configColumn)) \<Rightarrow>
          readConfig sheet configColumn [configRow + 1..<rowCount sheet] defaultConfig)"

subsection \<open>\<^verbatim>\<open>loadColumnMap\<close>, lines 129 to 146\<close>

fun findColumn :: "Sheet \<Rightarrow> nat \<Rightarrow> string \<Rightarrow> nat list \<Rightarrow> error + nat option" where
  "findColumn sheet row header [] = Inr None"
| "findColumn sheet row header (column # columns) =
     (case getCell sheet (int row) (int column) of
        Inl e \<Rightarrow> Inl e
      | Inr v \<Rightarrow>
          if truthy v \<and> trim (toStr v) = header then Inr (Some column)
          else findColumn sheet row header columns)"

fun loadColumns :: "Sheet \<Rightarrow> nat \<Rightarrow> (FieldKey \<times> string) list \<Rightarrow> ColumnMap \<Rightarrow> error + ColumnMap" where
  "loadColumns sheet row [] columnMap = Inr columnMap"
| "loadColumns sheet row ((key, header) # keys) columnMap =
     (case findColumn sheet row header [0..<columnCount sheet] of
        Inl e \<Rightarrow> Inl e
      | Inr None \<Rightarrow> loadColumns sheet row keys columnMap
      | Inr (Some column) \<Rightarrow> loadColumns sheet row keys (columnMap @ [(key, column)]))"

definition loadColumnMap :: "Sheet \<Rightarrow> nat \<Rightarrow> error + ColumnMap" where
  "loadColumnMap sheet row = loadColumns sheet row columNameMap []"

subsection \<open>\<^verbatim>\<open>parseOpMemberRow\<close>, lines 113 to 127\<close>

text \<open>\<^verbatim>\<open>{} as OpMember\<close>: no field is set.\<close>

definition emptyMember :: OpMember where
  "emptyMember = \<lparr>uniqueName = JUndefined, displayName = JUndefined, callsign = JUndefined,
     type_f = JUndefined, bolters = JUndefined, wire = JUndefined, lsoGrade = JUndefined,
     combatDeaths = JUndefined, promotions = JUndefined, remarks = JUndefined\<rparr>"

text \<open>\<^verbatim>\<open>member[key] = v\<close>.\<close>

fun setField :: "FieldKey \<Rightarrow> jsval \<Rightarrow> OpMember \<Rightarrow> OpMember" where
  "setField K_uniqueName v m = m\<lparr>uniqueName := v\<rparr>"
| "setField K_callsign v m = m\<lparr>callsign := v\<rparr>"
| "setField K_type v m = m\<lparr>type_f := v\<rparr>"
| "setField K_bolters v m = m\<lparr>bolters := v\<rparr>"
| "setField K_wire v m = m\<lparr>wire := v\<rparr>"
| "setField K_lsoGrade v m = m\<lparr>lsoGrade := v\<rparr>"
| "setField K_combatDeaths v m = m\<lparr>combatDeaths := v\<rparr>"
| "setField K_promotions v m = m\<lparr>promotions := v\<rparr>"
| "setField K_remarks v m = m\<lparr>remarks := v\<rparr>"

fun readFields :: "Sheet \<Rightarrow> nat \<Rightarrow> ColumnMap \<Rightarrow> OpMember \<Rightarrow> error + OpMember" where
  "readFields sheet row [] member = Inr member"
| "readFields sheet row ((key, column) # mapping) member =
     (case getCell sheet (int row) (int column) of
        Inl e \<Rightarrow> Inl e
      | Inr v \<Rightarrow> readFields sheet row mapping (setField key v member))"

text \<open>
  Lines 121 to 124: a truthy \<^verbatim>\<open>uniqueName\<close> is copied to \<^verbatim>\<open>displayName\<close> and replaced
  by its \<^verbatim>\<open>toLowerCase()\<close>. Only a string has that method: on a truthy number or
  boolean the call is a TypeError.
\<close>

definition parseOpMemberRow :: "Sheet \<Rightarrow> nat \<Rightarrow> ColumnMap \<Rightarrow> error + OpMember" where
  "parseOpMemberRow sheet row mapping =
     (case readFields sheet row mapping emptyMember of
        Inl e \<Rightarrow> Inl e
      | Inr member \<Rightarrow>
          if truthy (uniqueName member) then
            (case uniqueName member of
               JStr s \<Rightarrow>
                 Inr (member\<lparr>displayName := uniqueName member,
                              uniqueName := JStr (toLowerCase s)\<rparr>)
             | _ \<Rightarrow> Inl TypeError)
          else Inr member)"

subsection \<open>\<^verbatim>\<open>load\<close>, lines 91 to 103\<close>

text \<open>The loop of lines 94 to 102; the first equation's result and the \<open>Inr True\<close> case
  (the \<^verbatim>\<open>break\<close>) leave the loop.\<close>

fun loadRows :: "Sheet \<Rightarrow> ColumnMap \<Rightarrow> nat list \<Rightarrow> OpMember list \<Rightarrow> error + OpMember list" where
  "loadRows sheet columnMap [] ms = Inr ms"
| "loadRows sheet columnMap (row # rows) ms =
     (case (if row + 2 < rowCount sheet
            then (case getCell sheet (int row + 2) 0 of
                    Inl e \<Rightarrow> Inl e
                  | Inr v \<Rightarrow> Inr (looseEq v (JStr ''Name'')))
            else Inr False) of
        Inl e \<Rightarrow> Inl e
      | Inr True \<Rightarrow> Inr ms
      | Inr False \<Rightarrow>
          (case parseOpMemberRow sheet row columnMap of
             Inl e \<Rightarrow> Inl e
           | Inr member \<Rightarrow> loadRows sheet columnMap rows (ms @ [member])))"

definition load :: "Sheet \<Rightarrow> Op \<Rightarrow> error + Op" where
  "load sheet op =
     (let op1 = op\<lparr>name := title sheet @ '' '' @ toStr (timeslot op)\<rparr> in
      case loadColumnMap sheet (startRow op1) of
        Inl e \<Rightarrow> Inl e
      | Inr columnMap \<Rightarrow>
          (case loadRows sheet columnMap [startRow op1 + 1..<rowCount sheet] (members op1) of
             Inl e \<Rightarrow> Inl e
           | Inr ms \<Rightarrow> Inr (op1\<lparr>members := ms\<rparr>)))"

text \<open>\<^verbatim>\<open>new Op(sheet, timeSlot, opConfig, row)\<close>: no members; \<^verbatim>\<open>name\<close> is not set
  before \<^verbatim>\<open>load\<close> sets it.\<close>

definition newOp :: "jsval \<Rightarrow> OpConfig \<Rightarrow> nat \<Rightarrow> Op" where
  "newOp timeSlot opConfig row =
     \<lparr>name = [], members = [], timeslot = timeSlot, config = opConfig, startRow = row\<rparr>"

subsection \<open>\<^verbatim>\<open>fromSheet\<close>, lines 71 to 89\<close>

fun scanRows :: "Sheet \<Rightarrow> OpConfig \<Rightarrow> nat list \<Rightarrow> Op list \<Rightarrow> error + Op list" where
  "scanRows sheet opConfig [] ops = Inr ops"
| "scanRows sheet opConfig (row # rows) ops =
     (case getCell sheet (int row) 0 of
        Inl e \<Rightarrow> Inl e
      | Inr v \<Rightarrow>
          if looseEq v (JStr ''Name'') then
            (case getCell sheet (int row - 1) 0 of
               Inl e \<Rightarrow> Inl e
             | Inr timeSlot \<Rightarrow>
                 (case load sheet (newOp timeSlot opConfig row) of
                    Inl e \<Rightarrow> Inl e
                  | Inr op \<Rightarrow> scanRows sheet opConfig rows (ops @ [op])))
          else scanRows sheet opConfig rows ops)"

definition fromSheet :: "Sheet \<Rightarrow> error + Op list" where
  "fromSheet sheet =
     (case getOpConfig sheet of
        Inl e \<Rightarrow> Inl e
      | Inr opConfig \<Rightarrow> scanRows sheet opConfig [0..<rowCount sheet] [])"

text \<open>\<^verbatim>\<open>getMember\<close>, lines 109 to 111.\<close>

definition getMember :: "Op \<Rightarrow> jsval \<Rightarrow> OpMember option" where
  "getMember op nm = find (\<lambda>member. looseEq (uniqueName member) nm) (members op)"

section \<open>The parser: \<^verbatim>\<open>class GoogleSheetParser\<close>\<close>

record OverallMember =
  history :: string
  fiveOpsWithoutDeath :: nat
  fiveOpsWithoutBolter :: nat

text \<open>
  The fields of a parser object that \<^verbatim>\<open>run\<close> reads and writes (lines 194 to 197).
  The objects \<^verbatim>\<open>members\<close> and \<^verbatim>\<open>opAchievementLog\<close> are maps from property keys; the
  field \<^verbatim>\<open>members\<close> is \<open>members'\<close> here, apart from the \<open>members\<close> of an \<open>Op\<close>.
\<close>

record GoogleSheetParser =
  members' :: "string \<rightharpoonup> OverallMember"
  achievementHistory :: string
  opAchievementLog :: "string \<rightharpoonup> string"

text \<open>A parser as its constructor leaves it.\<close>

definition newParser :: GoogleSheetParser where
  "newParser = \<lparr>members' = Map.empty, achievementHistory = [], opAchievementLog = Map.empty\<rparr>"

text \<open>The state of the loop of \<^verbatim>\<open>parseMember\<close>: the parser's fields and the two local
  counters of lines 276 and 277.\<close>

record Streaks =
  parser :: GoogleSheetParser
  opsWithoutDeath :: nat
  opsWithoutBolter :: nat

text \<open>\<^verbatim>\<open>this.opAchievementLog[k] += line\<close>; a missing property reads as \<^verbatim>\<open>undefined\<close>.\<close>

definition appendLog :: "string \<Rightarrow> string \<Rightarrow> (string \<rightharpoonup> string) \<Rightarrow> (string \<rightharpoonup> string)" where
  "appendLog k line lg = lg(k \<mapsto> (case lg k of None \<Rightarrow> ''undefined'' | Some t \<Rightarrow> t) @ line)"

text \<open>An update of the object \<^verbatim>\<open>this.members[memberName]\<close>, used where the object is
  known to exist.\<close>

definition updMember :: "string \<Rightarrow> (OverallMember \<Rightarrow> OverallMember) \<Rightarrow> GoogleSheetParser \<Rightarrow> GoogleSheetParser" where
  "updMember k f p =
     (case members' p k of
        None \<Rightarrow> p
      | Some om \<Rightarrow> p\<lparr>members' := (members' p)(k \<mapsto> f om)\<rparr>)"

text \<open>The counter part of the chains of lines 286 to 294 and 298 to 306.\<close>

definition countAfter :: "Change \<Rightarrow> nat \<Rightarrow> nat" where
  "countAfter result n =
     (if result = Failed then 0 else if result = Passed then n + 1 else n)"

definition deathLogOf :: "Change \<Rightarrow> OpMember \<Rightarrow> string" where
  "deathLogOf result member =
     (if result = Failed then ''Died '' @ toStr (combatDeaths member) @ '' times''
      else if result = Passed then ''Did not die ('' @ toStr (combatDeaths member) @ '')''
      else ''No logged death ('' @ toStr (combatDeaths member) @ '')'')"

definition bolterLogOf :: "Change \<Rightarrow> OpMember \<Rightarrow> string" where
  "bolterLogOf result member =
     (if result = Failed then ''Boltered '' @ toStr (bolters member) @ '' times''
      else if result = Passed then ''Did not bolter ('' @ toStr (bolters member) @ '')''
      else ''No trap ('' @ toStr (bolters member) @ '')'')"

text \<open>The effects of lines 310 to 317 on the parser's fields.\<close>

definition awardDeath :: "string \<Rightarrow> Op \<Rightarrow> OpMember \<Rightarrow> GoogleSheetParser \<Rightarrow> GoogleSheetParser" where
  "awardDeath k op member p =
     (let p1 = p\<lparr>achievementHistory := achievementHistory p @ ''After '' @ name op @ '', ''
                    @ toStr (displayName member) @ '' has not died in 5 ops!\<newline>''\<rparr>;
          p2 = updMember k (\<lambda>om. om\<lparr>fiveOpsWithoutBolter := fiveOpsWithoutBolter om + 1\<rparr>) p1;
          times = (case members' p2 k of None \<Rightarrow> 0 | Some om \<Rightarrow> fiveOpsWithoutBolter om)
      in p2\<lparr>opAchievementLog := appendLog (name op)
              (''[FIVE OPS WITHOUT DEATH] '' @ toStr (displayName member)
                 @ ''. They now have this award '' @ showNat times @ '' times\<newline>'')
              (opAchievementLog p2)\<rparr>)"

text \<open>The effects of lines 321 to 328 on the parser's fields.\<close>

definition awardBolter :: "string \<Rightarrow> Op \<Rightarrow> OpMember \<Rightarrow> GoogleSheetParser \<Rightarrow> GoogleSheetParser" where
  "awardBolter k op member p =
     (let p1 = p\<lparr>achievementHistory := achievementHistory p @ ''After '' @ name op @ '', ''
                    @ toStr (displayName member) @ '' has not boltered in 5 ops!\<newline>''\<rparr>;
          p2 = updMember k (\<lambda>om. om\<lparr>fiveOpsWithoutDeath := fiveOpsWithoutDeath om + 1\<rparr>) p1;
          times = (case members' p2 k of None \<Rightarrow> 0 | Some om \<Rightarrow> fiveOpsWithoutDeath om)
      in p2\<lparr>opAchievementLog := appendLog (name op)
              (''[FIVE OPS WITHOUT BOLTER] '' @ toStr (displayName member)
                 @ ''. They now have this award '' @ showNat times @ '' times\<newline>'')
              (opAchievementLog p2)\<rparr>)"

text \<open>\<^verbatim>\<open>v ?? "N/A"\<close> inside a template literal.\<close>

definition orNA :: "jsval \<Rightarrow> string" where
  "orNA v = (if v = JNull \<or> v = JUndefined then ''N/A'' else toStr v)"

text \<open>
  The callback of \<^verbatim>\<open>ops.forEach\<close>, lines 279 to 332, for a member found in the op. The
  object \<^verbatim>\<open>this.members[memberName]\<close> exists at this point (\<open>forOp\<close> below checks it).
\<close>

definition forMember :: "string \<Rightarrow> Op \<Rightarrow> OpMember \<Rightarrow> Streaks \<Rightarrow> Streaks" where
  "forMember k op member s =
     (let opName = name op;
          deathResult = parseEvent (combatDeaths member) (\<not> truthy (countDeaths (config op)));
          d = countAfter deathResult (opsWithoutDeath s);
          deathLog = deathLogOf deathResult member;
          bolterResult = parseEvent (bolters member) (\<not> truthy (countBolters (config op)));
          b = countAfter bolterResult (opsWithoutBolter s);
          bolterLog = bolterLogOf bolterResult member;
          p1 = (if 5 \<le> d then awardDeath k op member (parser s) else parser s);
          d1 = (if 5 \<le> d then 0 else d);
          achievements1 = (if 5 \<le> d then ''[FIVE OPS WITHOUT DEATH] '' else []);
          p2 = (if 5 \<le> b then awardBolter k op member p1 else p1);
          b1 = (if 5 \<le> b then 0 else b);
          achievements2 = (if 5 \<le> b then achievements1 @ ''[FIVE OPS WITHOUT BOLTER]''
                           else achievements1);
          p3 = updMember k (\<lambda>om. om\<lparr>history := history om @ opName @ '': '' @ deathLog @ '' ''
                  @ bolterLog @ '' Wire: '' @ orNA (wire member) @ '' Remarks: ''
                  @ orNA (remarks member) @ '' '' @ achievements2 @ ''\<newline>''\<rparr>) p2
      in \<lparr>parser = p3, opsWithoutDeath = d1, opsWithoutBolter = b1\<rparr>)"

text \<open>
  The whole callback: an op the member is not in is skipped (line 282). Every other
  path reads \<^verbatim>\<open>this.members[memberName].history\<close> (the \<^verbatim>\<open>log\<close> of line 331), which is
  a TypeError when the object does not exist.
\<close>

definition forOp :: "jsval \<Rightarrow> Op \<Rightarrow> Streaks \<Rightarrow> error + Streaks" where
  "forOp memberName op s =
     (case getMember op memberName of
        None \<Rightarrow> Inr s
      | Some member \<Rightarrow>
          (case members' (parser s) (toStr memberName) of
             None \<Rightarrow> Inl TypeError
           | Some om \<Rightarrow> Inr (forMember (toStr memberName) op member s)))"

fun forEachOp :: "jsval \<Rightarrow> Op list \<Rightarrow> Streaks \<Rightarrow> error + Streaks" where
  "forEachOp memberName [] s = Inr s"
| "forEachOp memberName (op # ops) s =
     (case forOp memberName op s of
        Inl e \<Rightarrow> Inl e
      | Inr s1 \<Rightarrow> forEachOp memberName ops s1)"

text \<open>
  \<^verbatim>\<open>parseMember\<close>, lines 267 to 333. \<open>loopStart\<close> is the state before the loop: a new
  object for the participant (lines 268 to 272) and both counters at 0 (lines 276 and
  277).
\<close>

definition loopStart :: "jsval \<Rightarrow> GoogleSheetParser \<Rightarrow> Streaks" where
  "loopStart memberName p =
     \<lparr>parser = p\<lparr>members' := (members' p)(toStr memberName \<mapsto>
          \<lparr>history = [], fiveOpsWithoutDeath = 0, fiveOpsWithoutBolter = 0\<rparr>)\<rparr>,
      opsWithoutDeath = 0, opsWithoutBolter = 0\<rparr>"

definition parseMember :: "jsval \<Rightarrow> Op list \<Rightarrow> GoogleSheetParser \<Rightarrow> error + GoogleSheetParser" where
  "parseMember memberName ops p =
     (case forEachOp memberName ops (loopStart memberName p) of
        Inl e \<Rightarrow> Inl e
      | Inr s \<Rightarrow> Inr (parser s))"

subsection \<open>\<^verbatim>\<open>run\<close>, lines 224 to 265\<close>

definition nonOpSheets :: "string list" where
  "nonOpSheets = [''Operations Record'', ''Awards Record'']"

text \<open>The loop of lines 227 to 233 over \<^verbatim>\<open>doc.sheetsByIndex\<close>.\<close>

fun collectOps :: "Sheet list \<Rightarrow> Op list \<Rightarrow> error + Op list" where
  "collectOps [] ops = Inr ops"
| "collectOps (sheet # sheets) ops =
     (if \<not> hidden sheet \<and> title sheet \<notin> set nonOpSheets then
        (case fromSheet sheet of
           Inl e \<Rightarrow> Inl e
         | Inr newOps \<Rightarrow> collectOps sheets (ops @ newOps))
      else collectOps sheets ops)"

text \<open>\<^verbatim>\<open>Set.add\<close>: a set of values in insertion order.\<close>

definition setAdd :: "jsval list \<Rightarrow> jsval \<Rightarrow> jsval list" where
  "setAdd xs x = (if x \<in> set xs then xs else xs @ [x])"

text \<open>The callback of lines 236 to 239 on the pair of the name set and the parser.\<close>

definition registerOp :: "jsval list \<times> GoogleSheetParser \<Rightarrow> Op \<Rightarrow> jsval list \<times> GoogleSheetParser" where
  "registerOp acc op =
     (foldl setAdd (fst acc) (map uniqueName (members op)),
      (snd acc)\<lparr>opAchievementLog := (opAchievementLog (snd acc))
          (name op \<mapsto> ''------ '' @ name op @ '' ------\<newline>'')\<rparr>)"

text \<open>The loop of lines 241 to 243.\<close>

fun parseMembers :: "jsval list \<Rightarrow> Op list \<Rightarrow> GoogleSheetParser \<Rightarrow> error + GoogleSheetParser" where
  "parseMembers [] ops p = Inr p"
| "parseMembers (member # rest) ops p =
     (case parseMember member ops p of
        Inl e \<Rightarrow> Inl e
      | Inr p1 \<Rightarrow> parseMembers rest ops p1)"

text \<open>The callback of lines 245 to 248.\<close>

definition filterMembers :: "Op \<Rightarrow> Op" where
  "filterMembers op = op\<lparr>members := filter (\<lambda>m. \<not> looseEq (uniqueName m) JNull) (members op)\<rparr>"

text \<open>The value of type \<^verbatim>\<open>SheetParseResult\<close> that lines 260 to 264 would build.\<close>

record SheetParseResult =
  resultMembers :: "string \<rightharpoonup> OverallMember"
  resultAchievementHistory :: string
  resultOpAchievementLog :: string

text \<open>
  What a call of \<^verbatim>\<open>run\<close> that does not throw leaves behind: the parser's fields, the
  ops written to \<^verbatim>\<open>ops.json\<close>, and the value the promise resolves to, \<open>None\<close> for
  \<^verbatim>\<open>undefined\<close>.
\<close>

record RunOutcome =
  parserAfter :: GoogleSheetParser
  opsWritten :: "Op list"
  returned :: "SheetParseResult option"

text \<open>
  \<^verbatim>\<open>run\<close> on the parser's fields and the document's sheets. Line 250 is a bare
  \<^verbatim>\<open>return;\<close>: the function returns \<^verbatim>\<open>undefined\<close> there, and lines 253 to 264, which
  build the \<^verbatim>\<open>SheetParseResult\<close>, are never reached.
\<close>

definition run :: "GoogleSheetParser \<Rightarrow> Sheet list \<Rightarrow> error + RunOutcome" where
  "run p sheetsByIndex =
     (case collectOps sheetsByIndex [] of
        Inl e \<Rightarrow> Inl e
      | Inr ops \<Rightarrow>
          let acc = foldl registerOp ([], p) ops in
          (case parseMembers (fst acc) ops (snd acc) of
             Inl e \<Rightarrow> Inl e
           | Inr p1 \<Rightarrow>
               Inr \<lparr>parserAfter = p1, opsWritten = map filterMembers ops, returned = None\<rparr>))"

section \<open>Observations used by the properties\<close>

text \<open>
  The result categories of one participant in one op: the two classifications the
  callback of \<^verbatim>\<open>parseMember\<close> computes (lines 285 and 297). An op the participant is
  not in leaves both counters alone, as \<open>NoChange\<close> does.
\<close>

definition deathResultOf :: "jsval \<Rightarrow> Op \<Rightarrow> Change" where
  "deathResultOf memberName op =
     (case getMember op memberName of
        None \<Rightarrow> NoChange
      | Some member \<Rightarrow> parseEvent (combatDeaths member) (\<not> truthy (countDeaths (config op))))"

definition bolterResultOf :: "jsval \<Rightarrow> Op \<Rightarrow> Change" where
  "bolterResultOf memberName op =
     (case getMember op memberName of
        None \<Rightarrow> NoChange
      | Some member \<Rightarrow> parseEvent (bolters member) (\<not> truthy (countBolters (config op))))"

text \<open>
  The threshold rule in the specification's words: a Failed classification resets the
  counter to 0, NoChange leaves it, Passed increments it; when the counter reaches 5
  an achievement event is emitted and the counter is reset to 0. On a counter below
  5 the threshold is reached by a Passed at 4 and by nothing else. \<open>completes\<close> says
  whether a classification completes a streak at a counter, \<open>nextCount\<close> is the counter
  after it, and \<open>finalCount\<close> the counter after a list of classifications.
\<close>

definition completes :: "Change \<Rightarrow> nat \<Rightarrow> bool" where
  "completes r c = (r = Passed \<and> c + 1 = 5)"

definition nextCount :: "Change \<Rightarrow> nat \<Rightarrow> nat" where
  "nextCount r c =
     (case r of
        Failed \<Rightarrow> 0
      | NoChange \<Rightarrow> c
      | Passed \<Rightarrow> if c + 1 = 5 then 0 else c + 1)"

fun finalCount :: "Change list \<Rightarrow> nat \<Rightarrow> nat" where
  "finalCount [] c = c"
| "finalCount (r # rs) c = finalCount rs (nextCount r c)"

text \<open>
  An achievement event, as the specification has it: the block, the participant's
  display name, the category, and the number of awards of the category the participant
  has with this one. The source does not store events. It writes each one as a line of
  \<^verbatim>\<open>achievementHistory\<close> (\<open>historyLine\<close>, lines 310 and 321) and a line of the block's entry
  of \<^verbatim>\<open>opAchievementLog\<close> (\<open>logLine\<close>, lines 315 to 317 and 326 to 328), and counts it in
  the participant's record. \<open>writeLog\<close> is the log with the line of an event at the end
  of its block's entry, after the text \<^verbatim>\<open>undefined\<close> where the block has no entry yet.
\<close>

datatype AchievementKind = NoDeathStreak | NoBolterStreak

record AchievementEvent =
  blockName :: string
  participantDisplayName :: string
  kind :: AchievementKind
  awardOccurrenceCount :: nat

definition historyLine :: "AchievementEvent \<Rightarrow> string" where
  "historyLine e = ''After '' @ blockName e @ '', '' @ participantDisplayName e
     @ (if kind e = NoDeathStreak then '' has not died in 5 ops!\<newline>''
        else '' has not boltered in 5 ops!\<newline>'')"

definition logLine :: "AchievementEvent \<Rightarrow> string" where
  "logLine e =
     (if kind e = NoDeathStreak then ''[FIVE OPS WITHOUT DEATH] ''
      else ''[FIVE OPS WITHOUT BOLTER] '')
     @ participantDisplayName e @ ''. They now have this award ''
     @ showNat (awardOccurrenceCount e) @ '' times\<newline>''"

definition writeLog :: "(string \<rightharpoonup> string) \<Rightarrow> AchievementEvent \<Rightarrow> (string \<rightharpoonup> string)" where
  "writeLog lg e =
     lg(blockName e \<mapsto>
        (case lg (blockName e) of None \<Rightarrow> ''undefined'' | Some t \<Rightarrow> t) @ logLine e)"

definition eventCount :: "AchievementKind \<Rightarrow> AchievementEvent list \<Rightarrow> nat" where
  "eventCount k es = length (filter (\<lambda>e. kind e = k) es)"

text \<open>
  The events the specification's streak engine emits for one participant in one op,
  from the two counters \<open>d\<close> and \<open>b\<close> before the op and the numbers \<open>da\<close> and \<open>ba\<close> of
  death and bolter awards so far: the no-death event first, as the two categories are
  evaluated in that order. No event where the participant is not in the op.
\<close>

definition opEvents :: "jsval \<Rightarrow> Op \<Rightarrow> nat \<Rightarrow> nat \<Rightarrow> nat \<Rightarrow> nat \<Rightarrow> AchievementEvent list" where
  "opEvents memberName op d b da ba =
     (case getMember op memberName of
        None \<Rightarrow> []
      | Some member \<Rightarrow>
          (if completes (deathResultOf memberName op) d
           then [\<lparr>blockName = name op, participantDisplayName = toStr (displayName member),
                  kind = NoDeathStreak, awardOccurrenceCount = da + 1\<rparr>]
           else [])
          @ (if completes (bolterResultOf memberName op) b
             then [\<lparr>blockName = name op, participantDisplayName = toStr (displayName member),
                    kind = NoBolterStreak, awardOccurrenceCount = ba + 1\<rparr>]
             else []))"

text \<open>The events of a sequence of ops, in order: counters and award numbers are carried
  from op to op by the threshold rule alone.\<close>

fun streakEvents :: "jsval \<Rightarrow> Op list \<Rightarrow> nat \<Rightarrow> nat \<Rightarrow> nat \<Rightarrow> nat \<Rightarrow> AchievementEvent list" where
  "streakEvents memberName [] d b da ba = []"
| "streakEvents memberName (op # ops) d b da ba =
     opEvents memberName op d b da ba
     @ streakEvents memberName ops
         (nextCount (deathResultOf memberName op) d)
         (nextCount (bolterResultOf memberName op) b)
         (da + eventCount NoDeathStreak (opEvents memberName op d b da ba))
         (ba + eventCount NoBolterStreak (opEvents memberName op d b da ba))"

text \<open>
  The marker of an event in the participant's narrative (lines 312 and 323), and the
  narrative line of one op (line 331): nothing where the participant is not in the op.
  \<open>streakNarrative\<close> is the narrative of a sequence of ops, with the counters and award
  numbers carried as in \<open>streakEvents\<close>.
\<close>

definition marker :: "AchievementEvent \<Rightarrow> string" where
  "marker e =
     (if kind e = NoDeathStreak then ''[FIVE OPS WITHOUT DEATH] ''
      else ''[FIVE OPS WITHOUT BOLTER]'')"

definition opNarrative :: "jsval \<Rightarrow> Op \<Rightarrow> nat \<Rightarrow> nat \<Rightarrow> nat \<Rightarrow> nat \<Rightarrow> string" where
  "opNarrative memberName op d b da ba =
     (case getMember op memberName of
        None \<Rightarrow> []
      | Some member \<Rightarrow>
          name op @ '': '' @ deathLogOf (deathResultOf memberName op) member @ '' ''
          @ bolterLogOf (bolterResultOf memberName op) member
          @ '' Wire: '' @ orNA (wire member) @ '' Remarks: '' @ orNA (remarks member) @ '' ''
          @ concat (map marker (opEvents memberName op d b da ba)) @ ''\<newline>'')"

fun streakNarrative :: "jsval \<Rightarrow> Op list \<Rightarrow> nat \<Rightarrow> nat \<Rightarrow> nat \<Rightarrow> nat \<Rightarrow> string" where
  "streakNarrative memberName [] d b da ba = []"
| "streakNarrative memberName (op # ops) d b da ba =
     opNarrative memberName op d b da ba
     @ streakNarrative memberName ops
         (nextCount (deathResultOf memberName op) d)
         (nextCount (bolterResultOf memberName op) b)
         (da + eventCount NoDeathStreak (opEvents memberName op d b da ba))
         (ba + eventCount NoBolterStreak (opEvents memberName op d b da ba))"

text \<open>
  The config block, as a description of the grid. A key cell is a cell of the test of
  lines 168 to 171; the anchor is the first config cell in row-major order; the key
  rows are the rows below the anchor whose cell in the anchor's column is a key cell;
  the flag is the value right of the last key row, or the default when there is none.
  \<open>noConfigText\<close> is the condition on the trimmed text.
\<close>

definition isKeyCell :: "string \<Rightarrow> jsval \<Rightarrow> bool" where
  "isKeyCell k v = (truthy v \<and> toLowerCase (toStr v) = k)"

definition noConfigCell :: "Sheet \<Rightarrow> bool" where
  "noConfigCell sheet =
     (\<forall>r \<in> set [0..<rowCount sheet]. \<forall>c \<in> set [0..<columnCount sheet].
        \<not> isConfigCell (cellValue sheet r c))"

definition noConfigText :: "Sheet \<Rightarrow> bool" where
  "noConfigText sheet =
     (\<forall>r \<in> set [0..<rowCount sheet]. \<forall>c \<in> set [0..<columnCount sheet].
        toLowerCase (trim (toStr (cellValue sheet r c))) \<noteq> ''config'')"

definition isAnchor :: "Sheet \<Rightarrow> nat \<Rightarrow> nat \<Rightarrow> bool" where
  "isAnchor sheet r0 c0 =
     (r0 < rowCount sheet \<and> c0 < columnCount sheet
      \<and> isConfigCell (cellValue sheet r0 c0)
      \<and> (\<forall>r \<in> set [0..<r0]. \<forall>c \<in> set [0..<columnCount sheet].
            \<not> isConfigCell (cellValue sheet r c))
      \<and> (\<forall>c \<in> set [0..<c0]. \<not> isConfigCell (cellValue sheet r0 c)))"

definition keyRows :: "Sheet \<Rightarrow> nat \<Rightarrow> nat \<Rightarrow> string \<Rightarrow> nat list" where
  "keyRows sheet r0 c0 k =
     filter (\<lambda>r. isKeyCell k (cellValue sheet r c0)) [r0 + 1..<rowCount sheet]"

definition lastWins :: "Sheet \<Rightarrow> nat \<Rightarrow> nat list \<Rightarrow> jsval \<Rightarrow> jsval" where
  "lastWins sheet c0 rows dflt =
     (if rows = [] then dflt else cellValue sheet (last rows) (c0 + 1))"

text \<open>The names the ops written by a run hold, op by op.\<close>

definition writtenNames :: "RunOutcome \<Rightarrow> jsval list list" where
  "writtenNames r = map (\<lambda>op. map uniqueName (members op)) (opsWritten r)"

section \<open>Sample documents\<close>

text \<open>
  A sheet of five blocks. Each block is a timeslot row, a header row (\<^verbatim>\<open>Name\<close> and one
  count column, whose header is the parameter), the row of the participant Maverick
  with the count zero, and an empty row that ends the block (the last block ends with
  the sheet).
\<close>

definition streakSheet :: "string \<Rightarrow> Sheet" where
  "streakSheet countHeader =
     \<lparr>title = ''W'', hidden = False, rowCount = 19, columnCount = 2,
      cells =
        [[JStr ''A''], [JStr ''Name'', JStr countHeader], [JStr ''Maverick'', JStr ''0''], [],
         [JStr ''B''], [JStr ''Name'', JStr countHeader], [JStr ''Maverick'', JStr ''0''], [],
         [JStr ''C''], [JStr ''Name'', JStr countHeader], [JStr ''Maverick'', JStr ''0''], [],
         [JStr ''D''], [JStr ''Name'', JStr countHeader], [JStr ''Maverick'', JStr ''0''], [],
         [JStr ''E''], [JStr ''Name'', JStr countHeader], [JStr ''Maverick'', JStr ''0'']]\<rparr>"

text \<open>The ops of a sheet, and none when the extraction throws.\<close>

definition opsOfSheet :: "Sheet \<Rightarrow> Op list" where
  "opsOfSheet sheet = (case fromSheet sheet of Inl e \<Rightarrow> [] | Inr ops \<Rightarrow> ops)"

text \<open>One block in which Maverick died twice and boltered once.\<close>

definition failedSheet :: Sheet where
  "failedSheet =
     \<lparr>title = ''X'', hidden = False, rowCount = 3, columnCount = 3,
      cells = [[JStr ''F''], [JStr ''Name'', JStr ''Combat Deaths'', JStr ''Bolters''],
               [JStr ''Maverick'', JNum 2, JStr ''1'']]\<rparr>"

text \<open>A sheet whose first row is a header row: no row is above it.\<close>

definition nameAtTopSheet :: Sheet where
  "nameAtTopSheet =
     \<lparr>title = ''Week1'', hidden = False, rowCount = 2, columnCount = 1,
      cells = [[JStr ''Name''], [JStr ''Maverick'']]\<rparr>"

text \<open>One block whose only member row has the empty string in the \<^verbatim>\<open>Name\<close> column (the
  value of a formula cell that evaluates to the empty string).\<close>

definition blankNameSheet :: Sheet where
  "blankNameSheet =
     \<lparr>title = ''Week1'', hidden = False, rowCount = 3, columnCount = 1,
      cells = [[JStr ''1900Z''], [JStr ''Name''], [JStr []]]\<rparr>"

text \<open>One row whose name has white space around it.\<close>

definition paddedNameSheet :: Sheet where
  "paddedNameSheet =
     \<lparr>title = ''Week1'', hidden = False, rowCount = 3, columnCount = 1,
      cells = [[JStr ''1900Z''], [JStr ''Name''], [JStr '' Maverick '']]\<rparr>"

text \<open>A sheet with a config block in its second column: two rows set
  \<^verbatim>\<open>Count Bolters\<close>, one sets \<^verbatim>\<open>Count Deaths\<close>.\<close>

definition configSheet :: Sheet where
  "configSheet =
     \<lparr>title = ''Week1'', hidden = False, rowCount = 5, columnCount = 3,
      cells = [[JStr ''1900Z'', JStr ''Config''],
               [JStr ''Name'', JStr ''Count Bolters'', JBool False],
               [JStr ''Maverick'', JStr ''count bolters'', JBool True],
               [],
               [JNull, JStr ''COUNT DEATHS'', JBool False]]\<rparr>"

text \<open>A config marker with white space around it, above a \<^verbatim>\<open>Count Bolters\<close> row.\<close>

definition paddedConfigSheet :: Sheet where
  "paddedConfigSheet =
     \<lparr>title = ''Week1'', hidden = False, rowCount = 2, columnCount = 2,
      cells = [[JStr '' Config ''], [JStr ''Count Bolters'', JBool False]]\<rparr>"

text \<open>One block of a named row and an empty row below it.\<close>

definition trailingBlankSheet :: Sheet where
  "trailingBlankSheet =
     \<lparr>title = ''Week1'', hidden = False, rowCount = 4, columnCount = 1,
      cells = [[JStr ''1900Z''], [JStr ''Name''], [JStr ''Maverick'']]\<rparr>"

section \<open>Properties\<close>

subsection \<open>White space, letter case and numerals\<close>

text \<open>The no-break space is white space: \<^verbatim>\<open>trim\<close> removes it and \<^verbatim>\<open>parseInt\<close> skips it.\<close>

lemma trim_no_break_space: "trim [CHR 0xA0, CHR ''5'', CHR 0xA0, CHR 0x09] = ''5''"
  by code_simp

lemma parseInt_no_break_space:
  "parseInt (JStr [CHR 0xA0, CHR ''5'']) = Some 5
   \<and> parseEvent (JStr [CHR 0xA0, CHR ''5'']) False = Failed
   \<and> parseEvent (JStr [CHR 0xA0, CHR ''0'']) False = Passed"
  by code_simp

text \<open>\<^verbatim>\<open>toLowerCase\<close> on the capital letters of Latin-1: a name with U+00C9 and U+00D6 has
  them lowered to U+00E9 and U+00F6; the multiplication sign U+00D7 and the sharp s
  U+00DF stay.\<close>

lemma toLowerCase_latin1:
  "toLowerCase ([CHR 0xC9] @ ''CLAIR '' @ [CHR 0xD6] @ ''zg'' @ [CHR 0xFC] @ ''r'')
     = [CHR 0xE9] @ ''clair '' @ [CHR 0xF6] @ ''zg'' @ [CHR 0xFC] @ ''r''
   \<and> toLowerCase [CHR 0xD7, CHR 0xDF, CHR 0xDE, CHR 0xC0] = [CHR 0xD7, CHR 0xDF, CHR 0xFE, CHR 0xE0]"
  by code_simp

text \<open>The conversion of a string to a number, on numerals of each form and on strings
  that are no numeral.\<close>

lemma strToNumber_numerals:
  "strToNumber ''0.0'' = Some 0 \<and> strToNumber '' 12 '' = Some 12
   \<and> strToNumber ''-7'' = Some (- 7) \<and> strToNumber ''+7'' = Some 7
   \<and> strToNumber ''1e2'' = Some 100 \<and> strToNumber ''2.50E+1'' = Some 25
   \<and> strToNumber ''120e-1'' = Some 12 \<and> strToNumber ''5.'' = Some 5
   \<and> strToNumber ''0x1F'' = Some 31 \<and> strToNumber ''0b101'' = Some 5
   \<and> strToNumber ''0o17'' = Some 15 \<and> strToNumber [] = Some 0
   \<and> strToNumber [CHR 0xA0] = Some 0"
  by code_simp

lemma strToNumber_no_numeral:
  "strToNumber ''-0x10'' = None \<and> strToNumber ''0x'' = None \<and> strToNumber ''.'' = None
   \<and> strToNumber ''1e'' = None \<and> strToNumber ''12px'' = None \<and> strToNumber ''0.5'' = None
   \<and> strToNumber ''1 2'' = None \<and> strToNumber ''Infinity'' = None \<and> strToNumber ''--1'' = None"
  by code_simp

lemma looseEq_decimal_zero:
  "looseEq (JStr ''0.0'') (JNum 0) \<and> looseEq (JNum 0) (JStr ''0.0'')
   \<and> looseEq (JStr '' '') (JBool False) \<and> \<not> looseEq (JStr ''0.0'') (JStr ''0'')"
  by code_simp

subsection \<open>Classification\<close>

lemma parseInt_empty:
  "parseInt JUndefined = None" "parseInt JNull = None" "parseInt (JStr []) = None"
  by (simp_all add: parseInt_def parseIntStr_def toStr_def isWhite_def digitVal_def)

text \<open>
  Claim C4. \<open>parseEvent\<close> is \<open>NoChange\<close> whenever the category is disabled, whatever the
  raw value (also for the Failed-shaped \<^verbatim>\<open>"3"\<close>). Otherwise it is decided by \<open>parseInt\<close>
  alone: \<open>NoChange\<close> when the value does not parse, \<open>Failed\<close> when the parsed integer is
  positive, \<open>Passed\<close> when it is zero or negative. A missing value (\<^verbatim>\<open>undefined\<close>,
  \<^verbatim>\<open>null\<close>) and the empty string do not parse. To parse is what \<^verbatim>\<open>parseInt\<close> does: it
  reads the integer a value starts with.
\<close>

theorem parseEvent_classification:
  "parseEvent v ig =
     (if ig then NoChange
      else case parseInt v of
             None \<Rightarrow> NoChange
           | Some n \<Rightarrow> if 0 < n then Failed else Passed)
   \<and> parseInt JUndefined = None \<and> parseInt JNull = None \<and> parseInt (JStr []) = None
   \<and> parseEvent (JStr ''3'') True = NoChange"
proof -
  have "parseEvent v ig =
     (if ig then NoChange
      else case parseInt v of
             None \<Rightarrow> NoChange
           | Some n \<Rightarrow> if 0 < n then Failed else Passed)"
  proof (cases ig)
    case True
    then show ?thesis by (simp add: parseEvent_def)
  next
    case False
    show ?thesis
    proof (cases "parseInt v")
      case None
      with False show ?thesis by (simp add: parseEvent_def)
    next
      case (Some n)
      then have "v \<noteq> JUndefined" "v \<noteq> JNull" "v \<noteq> JStr []"
        using parseInt_empty by auto
      with False Some show ?thesis by (simp add: parseEvent_def)
    qed
  qed
  then show ?thesis
    by (simp add: parseInt_empty parseEvent_def)
qed

theorem parseEvent_classification_witness:
  "parseEvent (JStr ''3'') False = Failed \<and> parseEvent (JStr ''0'') False = Passed
   \<and> parseEvent (JStr ''-2'') False = Passed \<and> parseEvent (JStr ''abc'') False = NoChange
   \<and> parseEvent (JNum 2) False = Failed \<and> parseEvent JNull False = NoChange
   \<and> parseEvent (JStr '' 7x'') False = Failed"
proof -
  have a: "parseInt (JStr ''3'') = Some 3" by code_simp
  have f: "parseInt (JStr '' 7x'') = Some 7" by code_simp
  have b: "parseInt (JStr ''0'') = Some 0" by code_simp
  have c: "parseInt (JStr ''-2'') = Some (- 2)" by code_simp
  have d: "parseInt (JStr ''abc'') = None" by code_simp
  have e: "parseInt (JNum 2) = Some 2" by code_simp
  show ?thesis
    using parseEvent_classification [of "JStr ''3''" False]
      parseEvent_classification [of "JStr ''0''" False]
      parseEvent_classification [of "JStr ''-2''" False]
      parseEvent_classification [of "JStr ''abc''" False]
      parseEvent_classification [of "JNum 2" False]
      parseEvent_classification [of JNull False]
      parseEvent_classification [of "JStr '' 7x''" False]
    by (simp add: a b c d e f)
qed

subsection \<open>The streak loop\<close>

lemma countAfter_threshold: "c \<le> 4 \<Longrightarrow> (5 \<le> countAfter r c) = completes r c"
  by (cases r) (auto simp: countAfter_def completes_def)

lemma countAfter_next:
  "c \<le> 4 \<Longrightarrow> (if completes r c then 0 else countAfter r c) = nextCount r c"
  by (cases r) (auto simp: countAfter_def nextCount_def completes_def)

lemma nextCount_le: "c \<le> 4 \<Longrightarrow> nextCount r c \<le> 4"
  by (cases r) (auto simp: nextCount_def)

lemma eventCount_append: "eventCount k (xs @ ys) = eventCount k xs + eventCount k ys"
  by (simp add: eventCount_def)

lemma foldl_writeLog_append:
  "foldl writeLog lg (xs @ ys) = foldl writeLog (foldl writeLog lg xs) ys"
  by simp

text \<open>What the callback writes for a member of the op, from a state in which the
  participant's object exists and both counters are below the threshold.\<close>

lemma forMember_writes:
  assumes key: "members' (parser s) k = Some om"
    and d4: "opsWithoutDeath s \<le> 4" and b4: "opsWithoutBolter s \<le> 4"
    and m: "getMember op n = Some m"
  shows "opsWithoutDeath (forMember k op m s) = nextCount (deathResultOf n op) (opsWithoutDeath s)"
    and "opsWithoutBolter (forMember k op m s) =
          nextCount (bolterResultOf n op) (opsWithoutBolter s)"
    and "achievementHistory (parser (forMember k op m s)) =
          achievementHistory (parser s)
          @ concat (map historyLine (opEvents n op (opsWithoutDeath s) (opsWithoutBolter s)
                (fiveOpsWithoutBolter om) (fiveOpsWithoutDeath om)))"
    and "opAchievementLog (parser (forMember k op m s)) =
          foldl writeLog (opAchievementLog (parser s))
            (opEvents n op (opsWithoutDeath s) (opsWithoutBolter s)
                (fiveOpsWithoutBolter om) (fiveOpsWithoutDeath om))"
    and "members' (parser (forMember k op m s)) =
          (members' (parser s))(k \<mapsto> om
            \<lparr>history := history om @ opNarrative n op (opsWithoutDeath s) (opsWithoutBolter s)
                (fiveOpsWithoutBolter om) (fiveOpsWithoutDeath om),
             fiveOpsWithoutDeath := fiveOpsWithoutDeath om
               + eventCount NoBolterStreak (opEvents n op (opsWithoutDeath s)
                   (opsWithoutBolter s) (fiveOpsWithoutBolter om) (fiveOpsWithoutDeath om)),
             fiveOpsWithoutBolter := fiveOpsWithoutBolter om
               + eventCount NoDeathStreak (opEvents n op (opsWithoutDeath s)
                   (opsWithoutBolter s) (fiveOpsWithoutBolter om) (fiveOpsWithoutDeath om))\<rparr>)"
proof -
  let ?dr = "parseEvent (combatDeaths m) (\<not> truthy (countDeaths (config op)))"
  let ?br = "parseEvent (bolters m) (\<not> truthy (countBolters (config op)))"
  have dr: "deathResultOf n op = ?dr" and br: "bolterResultOf n op = ?br"
    using m by (simp_all add: deathResultOf_def bolterResultOf_def)
  note th = countAfter_threshold [OF d4, of ?dr] countAfter_threshold [OF b4, of ?br]
  note nx = countAfter_next [OF d4, of ?dr] countAfter_next [OF b4, of ?br]
  show "opsWithoutDeath (forMember k op m s) = nextCount (deathResultOf n op) (opsWithoutDeath s)"
    using nx by (simp add: forMember_def Let_def th dr)
  show "opsWithoutBolter (forMember k op m s) =
          nextCount (bolterResultOf n op) (opsWithoutBolter s)"
    using nx by (simp add: forMember_def Let_def th br)
  show "achievementHistory (parser (forMember k op m s)) =
          achievementHistory (parser s)
          @ concat (map historyLine (opEvents n op (opsWithoutDeath s) (opsWithoutBolter s)
                (fiveOpsWithoutBolter om) (fiveOpsWithoutDeath om)))"
    using key
    by (simp add: forMember_def Let_def th dr br m opEvents_def awardDeath_def awardBolter_def
        updMember_def historyLine_def)
  show "opAchievementLog (parser (forMember k op m s)) =
          foldl writeLog (opAchievementLog (parser s))
            (opEvents n op (opsWithoutDeath s) (opsWithoutBolter s)
                (fiveOpsWithoutBolter om) (fiveOpsWithoutDeath om))"
    using key
    by (simp add: forMember_def Let_def th dr br m opEvents_def awardDeath_def awardBolter_def
        updMember_def appendLog_def writeLog_def logLine_def)
  show "members' (parser (forMember k op m s)) =
          (members' (parser s))(k \<mapsto> om
            \<lparr>history := history om @ opNarrative n op (opsWithoutDeath s) (opsWithoutBolter s)
                (fiveOpsWithoutBolter om) (fiveOpsWithoutDeath om),
             fiveOpsWithoutDeath := fiveOpsWithoutDeath om
               + eventCount NoBolterStreak (opEvents n op (opsWithoutDeath s)
                   (opsWithoutBolter s) (fiveOpsWithoutBolter om) (fiveOpsWithoutDeath om)),
             fiveOpsWithoutBolter := fiveOpsWithoutBolter om
               + eventCount NoDeathStreak (opEvents n op (opsWithoutDeath s)
                   (opsWithoutBolter s) (fiveOpsWithoutBolter om) (fiveOpsWithoutDeath om))\<rparr>)"
    using key
    by (cases om)
      (simp add: forMember_def Let_def th dr br m opEvents_def opNarrative_def awardDeath_def
        awardBolter_def updMember_def eventCount_def marker_def)
qed

text \<open>One run of the callback, whether the participant is in the op or not.\<close>

lemma forOp_writes:
  assumes key: "members' (parser s) (toStr n) = Some om"
    and d4: "opsWithoutDeath s \<le> 4" and b4: "opsWithoutBolter s \<le> 4"
  shows "\<exists>s1. forOp n op s = Inr s1
     \<and> opsWithoutDeath s1 = nextCount (deathResultOf n op) (opsWithoutDeath s)
     \<and> opsWithoutBolter s1 = nextCount (bolterResultOf n op) (opsWithoutBolter s)
     \<and> achievementHistory (parser s1) =
          achievementHistory (parser s)
          @ concat (map historyLine (opEvents n op (opsWithoutDeath s) (opsWithoutBolter s)
                (fiveOpsWithoutBolter om) (fiveOpsWithoutDeath om)))
     \<and> opAchievementLog (parser s1) =
          foldl writeLog (opAchievementLog (parser s))
            (opEvents n op (opsWithoutDeath s) (opsWithoutBolter s)
                (fiveOpsWithoutBolter om) (fiveOpsWithoutDeath om))
     \<and> members' (parser s1) =
          (members' (parser s))(toStr n \<mapsto> om
            \<lparr>history := history om @ opNarrative n op (opsWithoutDeath s) (opsWithoutBolter s)
                (fiveOpsWithoutBolter om) (fiveOpsWithoutDeath om),
             fiveOpsWithoutDeath := fiveOpsWithoutDeath om
               + eventCount NoBolterStreak (opEvents n op (opsWithoutDeath s)
                   (opsWithoutBolter s) (fiveOpsWithoutBolter om) (fiveOpsWithoutDeath om)),
             fiveOpsWithoutBolter := fiveOpsWithoutBolter om
               + eventCount NoDeathStreak (opEvents n op (opsWithoutDeath s)
                   (opsWithoutBolter s) (fiveOpsWithoutBolter om) (fiveOpsWithoutDeath om))\<rparr>)"
proof (cases "getMember op n")
  case None
  have "(members' (parser s))(toStr n \<mapsto> om) = members' (parser s)"
    using key by (simp add: fun_upd_idem)
  with None show ?thesis
    by (simp add: forOp_def deathResultOf_def bolterResultOf_def opEvents_def opNarrative_def
        nextCount_def eventCount_def)
next
  case (Some m)
  have "forOp n op s = Inr (forMember (toStr n) op m s)"
    using Some key by (simp add: forOp_def)
  then show ?thesis
    using forMember_writes [OF key d4 b4 Some] by simp
qed

text \<open>The whole loop: the state it ends in is the state it started in with the events
  of the specification's engine written to it.\<close>

lemma forEachOp_writes:
  assumes "members' (parser s) (toStr n) = Some om"
    and "opsWithoutDeath s \<le> 4" and "opsWithoutBolter s \<le> 4"
  shows "\<exists>s1. forEachOp n ops s = Inr s1
     \<and> opsWithoutDeath s1 = finalCount (map (deathResultOf n) ops) (opsWithoutDeath s)
     \<and> opsWithoutBolter s1 = finalCount (map (bolterResultOf n) ops) (opsWithoutBolter s)
     \<and> opsWithoutDeath s1 \<le> 4 \<and> opsWithoutBolter s1 \<le> 4
     \<and> achievementHistory (parser s1) =
          achievementHistory (parser s)
          @ concat (map historyLine (streakEvents n ops (opsWithoutDeath s) (opsWithoutBolter s)
                (fiveOpsWithoutBolter om) (fiveOpsWithoutDeath om)))
     \<and> opAchievementLog (parser s1) =
          foldl writeLog (opAchievementLog (parser s))
            (streakEvents n ops (opsWithoutDeath s) (opsWithoutBolter s)
                (fiveOpsWithoutBolter om) (fiveOpsWithoutDeath om))
     \<and> members' (parser s1) =
          (members' (parser s))(toStr n \<mapsto> om
            \<lparr>history := history om @ streakNarrative n ops (opsWithoutDeath s)
                (opsWithoutBolter s) (fiveOpsWithoutBolter om) (fiveOpsWithoutDeath om),
             fiveOpsWithoutDeath := fiveOpsWithoutDeath om
               + eventCount NoBolterStreak (streakEvents n ops (opsWithoutDeath s)
                   (opsWithoutBolter s) (fiveOpsWithoutBolter om) (fiveOpsWithoutDeath om)),
             fiveOpsWithoutBolter := fiveOpsWithoutBolter om
               + eventCount NoDeathStreak (streakEvents n ops (opsWithoutDeath s)
                   (opsWithoutBolter s) (fiveOpsWithoutBolter om) (fiveOpsWithoutDeath om))\<rparr>)"
  using assms
proof (induction ops arbitrary: s om)
  case Nil
  have "(members' (parser s))(toStr n \<mapsto> om) = members' (parser s)"
    using Nil.prems(1) by (simp add: fun_upd_idem)
  with Nil show ?case by (simp add: eventCount_def)
next
  case (Cons op ops)
  let ?d = "opsWithoutDeath s" and ?b = "opsWithoutBolter s"
  let ?da = "fiveOpsWithoutBolter om" and ?ba = "fiveOpsWithoutDeath om"
  let ?ev = "opEvents n op ?d ?b ?da ?ba"
  let ?om1 = "om\<lparr>history := history om @ opNarrative n op ?d ?b ?da ?ba,
             fiveOpsWithoutDeath := ?ba + eventCount NoBolterStreak ?ev,
             fiveOpsWithoutBolter := ?da + eventCount NoDeathStreak ?ev\<rparr>"
  from forOp_writes [OF Cons.prems, of op] obtain s1 where
    step: "forOp n op s = Inr s1"
    and d1: "opsWithoutDeath s1 = nextCount (deathResultOf n op) ?d"
    and b1: "opsWithoutBolter s1 = nextCount (bolterResultOf n op) ?b"
    and h1: "achievementHistory (parser s1) =
          achievementHistory (parser s) @ concat (map historyLine ?ev)"
    and l1: "opAchievementLog (parser s1) = foldl writeLog (opAchievementLog (parser s)) ?ev"
    and m1: "members' (parser s1) = (members' (parser s))(toStr n \<mapsto> ?om1)"
    by blast
  have key1: "members' (parser s1) (toStr n) = Some ?om1" using m1 by simp
  have d4: "opsWithoutDeath s1 \<le> 4" using d1 nextCount_le [OF Cons.prems(2)] by simp
  have b4: "opsWithoutBolter s1 \<le> 4" using b1 nextCount_le [OF Cons.prems(3)] by simp
  from Cons.IH [OF key1 d4 b4] obtain s2 where
    rest: "forEachOp n ops s1 = Inr s2"
    and d2: "opsWithoutDeath s2 = finalCount (map (deathResultOf n) ops) (opsWithoutDeath s1)"
    and b2: "opsWithoutBolter s2 = finalCount (map (bolterResultOf n) ops) (opsWithoutBolter s1)"
    and r2: "opsWithoutDeath s2 \<le> 4" "opsWithoutBolter s2 \<le> 4"
    and h2: "achievementHistory (parser s2) =
          achievementHistory (parser s1)
          @ concat (map historyLine (streakEvents n ops (opsWithoutDeath s1)
                (opsWithoutBolter s1) (fiveOpsWithoutBolter ?om1) (fiveOpsWithoutDeath ?om1)))"
    and l2: "opAchievementLog (parser s2) =
          foldl writeLog (opAchievementLog (parser s1))
            (streakEvents n ops (opsWithoutDeath s1) (opsWithoutBolter s1)
                (fiveOpsWithoutBolter ?om1) (fiveOpsWithoutDeath ?om1))"
    and m2: "members' (parser s2) =
          (members' (parser s1))(toStr n \<mapsto> ?om1
            \<lparr>history := history ?om1 @ streakNarrative n ops (opsWithoutDeath s1)
                (opsWithoutBolter s1) (fiveOpsWithoutBolter ?om1) (fiveOpsWithoutDeath ?om1),
             fiveOpsWithoutDeath := fiveOpsWithoutDeath ?om1
               + eventCount NoBolterStreak (streakEvents n ops (opsWithoutDeath s1)
                   (opsWithoutBolter s1) (fiveOpsWithoutBolter ?om1) (fiveOpsWithoutDeath ?om1)),
             fiveOpsWithoutBolter := fiveOpsWithoutBolter ?om1
               + eventCount NoDeathStreak (streakEvents n ops (opsWithoutDeath s1)
                   (opsWithoutBolter s1) (fiveOpsWithoutBolter ?om1)
                   (fiveOpsWithoutDeath ?om1))\<rparr>)"
    by blast
  have run: "forEachOp n (op # ops) s = Inr s2" using step rest by simp
  have A: "opsWithoutDeath s2 = finalCount (map (deathResultOf n) (op # ops)) ?d"
    using d2 d1 by simp
  have B: "opsWithoutBolter s2 = finalCount (map (bolterResultOf n) (op # ops)) ?b"
    using b2 b1 by simp
  have H: "achievementHistory (parser s2) =
          achievementHistory (parser s)
          @ concat (map historyLine (streakEvents n (op # ops) ?d ?b ?da ?ba))"
    using h2 h1 by (simp add: d1 b1)
  have L: "opAchievementLog (parser s2) =
          foldl writeLog (opAchievementLog (parser s)) (streakEvents n (op # ops) ?d ?b ?da ?ba)"
    using l2 l1 by (simp add: d1 b1)
  have M: "members' (parser s2) =
          (members' (parser s))(toStr n \<mapsto> om
            \<lparr>history := history om @ streakNarrative n (op # ops) ?d ?b ?da ?ba,
             fiveOpsWithoutDeath := ?ba
               + eventCount NoBolterStreak (streakEvents n (op # ops) ?d ?b ?da ?ba),
             fiveOpsWithoutBolter := ?da
               + eventCount NoDeathStreak (streakEvents n (op # ops) ?d ?b ?da ?ba)\<rparr>)"
    unfolding m2 m1 by (cases om) (simp add: d1 b1 eventCount_append add.assoc)
  show ?case
    using run A B r2 H L M by blast
qed

text \<open>The threshold rule on a sequence of classifications without a Failed.\<close>

lemma finalCount_no_failed:
  "c \<le> 4 \<Longrightarrow> Failed \<notin> set rs \<Longrightarrow> finalCount rs c = (c + count_list rs Passed) mod 5"
proof (induction rs arbitrary: c)
  case Nil
  then show ?case by simp
next
  case (Cons r rs)
  have le: "nextCount r c \<le> 4" by (rule nextCount_le [OF Cons.prems(1)])
  have nf: "Failed \<notin> set rs" and r: "r \<noteq> Failed" using Cons.prems(2) by auto
  have step: "(nextCount r c + count_list rs Passed) mod 5 =
      (c + count_list (r # rs) Passed) mod 5"
    using r Cons.prems(1) by (cases r) (auto simp: nextCount_def)
  show ?case
    using Cons.IH [OF le nf] step by simp
qed

lemma opEvents_death_count:
  "eventCount NoDeathStreak (opEvents n op d b da ba) =
     (if completes (deathResultOf n op) d then 1 else 0)"
  by (simp add: eventCount_def opEvents_def deathResultOf_def completes_def
      split: option.splits)

lemma opEvents_bolter_count:
  "eventCount NoBolterStreak (opEvents n op d b da ba) =
     (if completes (bolterResultOf n op) b then 1 else 0)"
  by (simp add: eventCount_def opEvents_def bolterResultOf_def completes_def
      split: option.splits)

lemma streakEvents_death_count:
  "d \<le> 4 \<Longrightarrow> Failed \<notin> set (map (deathResultOf n) ops) \<Longrightarrow>
   eventCount NoDeathStreak (streakEvents n ops d b da ba) =
     (d + count_list (map (deathResultOf n) ops) Passed) div 5"
proof (induction ops arbitrary: d b da ba)
  case Nil
  then show ?case by (simp add: eventCount_def)
next
  case (Cons op ops)
  let ?r = "deathResultOf n op"
  have le: "nextCount ?r d \<le> 4" by (rule nextCount_le [OF Cons.prems(1)])
  have nf: "Failed \<notin> set (map (deathResultOf n) ops)" and r: "?r \<noteq> Failed"
    using Cons.prems(2) by auto
  have step: "(if completes ?r d then 1 else 0)
        + (nextCount ?r d + count_list (map (deathResultOf n) ops) Passed) div 5
      = (d + count_list (map (deathResultOf n) (op # ops)) Passed) div 5"
    using r Cons.prems(1) by (cases ?r) (auto simp: nextCount_def completes_def)
  show ?case
    using Cons.IH [OF le nf] step
    by (simp add: eventCount_append opEvents_death_count)
qed

lemma streakEvents_bolter_count:
  "b \<le> 4 \<Longrightarrow> Failed \<notin> set (map (bolterResultOf n) ops) \<Longrightarrow>
   eventCount NoBolterStreak (streakEvents n ops d b da ba) =
     (b + count_list (map (bolterResultOf n) ops) Passed) div 5"
proof (induction ops arbitrary: d b da ba)
  case Nil
  then show ?case by (simp add: eventCount_def)
next
  case (Cons op ops)
  let ?r = "bolterResultOf n op"
  have le: "nextCount ?r b \<le> 4" by (rule nextCount_le [OF Cons.prems(1)])
  have nf: "Failed \<notin> set (map (bolterResultOf n) ops)" and r: "?r \<noteq> Failed"
    using Cons.prems(2) by auto
  have step: "(if completes ?r b then 1 else 0)
        + (nextCount ?r b + count_list (map (bolterResultOf n) ops) Passed) div 5
      = (b + count_list (map (bolterResultOf n) (op # ops)) Passed) div 5"
    using r Cons.prems(1) by (cases ?r) (auto simp: nextCount_def completes_def)
  show ?case
    using Cons.IH [OF le nf] step
    by (simp add: eventCount_append opEvents_bolter_count)
qed

lemma loopStart_ok:
  "members' (parser (loopStart n p)) (toStr n) =
     Some \<lparr>history = [], fiveOpsWithoutDeath = 0, fiveOpsWithoutBolter = 0\<rparr>"
  "opsWithoutDeath (loopStart n p) = 0" "opsWithoutBolter (loopStart n p) = 0"
  by (simp_all add: loopStart_def)

subsection \<open>The sample documents, evaluated\<close>

lemma fromSheet_deaths:
  "fromSheet (streakSheet ''Combat Deaths'') =
     Inr (map (\<lambda>(t, r). \<lparr>name = ''W '' @ t,
                 members = [emptyMember\<lparr>uniqueName := JStr ''maverick'',
                    displayName := JStr ''Maverick'', combatDeaths := JStr ''0''\<rparr>],
                 timeslot = JStr t, config = defaultConfig, startRow = r\<rparr>)
            [(''A'', 1), (''B'', 5), (''C'', 9), (''D'', 13), (''E'', 17)])"
  by code_simp

lemma fromSheet_bolters:
  "fromSheet (streakSheet ''Bolters'') =
     Inr (map (\<lambda>(t, r). \<lparr>name = ''W '' @ t,
                 members = [emptyMember\<lparr>uniqueName := JStr ''maverick'',
                    displayName := JStr ''Maverick'', bolters := JStr ''0''\<rparr>],
                 timeslot = JStr t, config = defaultConfig, startRow = r\<rparr>)
            [(''A'', 1), (''B'', 5), (''C'', 9), (''D'', 13), (''E'', 17)])"
  by code_simp

lemma fromSheet_failed:
  "fromSheet failedSheet =
     Inr [\<lparr>name = ''X F'',
           members = [emptyMember\<lparr>uniqueName := JStr ''maverick'',
              displayName := JStr ''Maverick'', bolters := JStr ''1'',
              combatDeaths := JNum 2\<rparr>],
           timeslot = JStr ''F'', config = defaultConfig, startRow = 1\<rparr>]"
  by code_simp

lemma collectOps_single:
  "collectOps [sheet] [] =
     (if \<not> hidden sheet \<and> title sheet \<notin> set nonOpSheets then fromSheet sheet else Inr [])"
  by (simp split: sum.splits)

lemma streakSheet_fields: "hidden (streakSheet h) = False" "title (streakSheet h) = ''W''"
  by (simp_all add: streakSheet_def)

lemma collectOps_streakSheet:
  "collectOps [streakSheet h] [] = fromSheet (streakSheet h)"
  by (simp add: collectOps_single streakSheet_fields nonOpSheets_def del: collectOps.simps)

subsection \<open>Counters and events\<close>

text \<open>
  Claim C9. In the loop of \<open>parseMember\<close>, started as \<open>parseMember\<close> starts it, the loop
  over any number of blocks completes and leaves both rolling counters between 0 and 4
  (\<open>take k ops\<close>: after each block). One run of the callback keeps the range: from any
  state with the participant's object and both counters at most 4, it completes with
  both counters at most 4.
\<close>

theorem streak_counters_in_range:
  "(\<exists>s1. forEachOp n (take k ops) (loopStart n p) = Inr s1
        \<and> opsWithoutDeath s1 \<le> 4 \<and> opsWithoutBolter s1 \<le> 4)
   \<and> (members' (parser s) (toStr n) \<noteq> None \<and> opsWithoutDeath s \<le> 4 \<and> opsWithoutBolter s \<le> 4
        \<longrightarrow> (\<exists>s1. forOp n op s = Inr s1 \<and> members' (parser s1) (toStr n) \<noteq> None
                  \<and> opsWithoutDeath s1 \<le> 4 \<and> opsWithoutBolter s1 \<le> 4))"
proof (intro conjI impI)
  show "\<exists>s1. forEachOp n (take k ops) (loopStart n p) = Inr s1
        \<and> opsWithoutDeath s1 \<le> 4 \<and> opsWithoutBolter s1 \<le> 4"
    using forEachOp_writes [OF loopStart_ok(1), of n p "take k ops"]
    by (auto simp: loopStart_ok)
next
  assume a: "members' (parser s) (toStr n) \<noteq> None \<and> opsWithoutDeath s \<le> 4
     \<and> opsWithoutBolter s \<le> 4"
  then obtain om where om: "members' (parser s) (toStr n) = Some om" by auto
  from forOp_writes [OF om, of op] a obtain s1 where
    "forOp n op s = Inr s1"
    "opsWithoutDeath s1 = nextCount (deathResultOf n op) (opsWithoutDeath s)"
    "opsWithoutBolter s1 = nextCount (bolterResultOf n op) (opsWithoutBolter s)"
    "members' (parser s1) (toStr n) \<noteq> None"
    by auto
  then show "\<exists>s1. forOp n op s = Inr s1 \<and> members' (parser s1) (toStr n) \<noteq> None
                  \<and> opsWithoutDeath s1 \<le> 4 \<and> opsWithoutBolter s1 \<le> 4"
    using a nextCount_le by auto
qed

theorem streak_counters_in_range_witness:
  "(\<exists>s1. forEachOp (JStr ''maverick'') (take 4 (opsOfSheet (streakSheet ''Combat Deaths'')))
            (loopStart (JStr ''maverick'') newParser) = Inr s1
        \<and> opsWithoutDeath s1 \<le> 4 \<and> opsWithoutBolter s1 \<le> 4)
   \<and> map_sum id (\<lambda>s. (opsWithoutDeath s, opsWithoutBolter s))
        (forEachOp (JStr ''maverick'') (take 4 (opsOfSheet (streakSheet ''Combat Deaths'')))
            (loopStart (JStr ''maverick'') newParser)) = Inr (4, 0)
   \<and> map_sum id (\<lambda>s. (opsWithoutDeath s, opsWithoutBolter s))
        (forEachOp (JStr ''maverick'') (take 5 (opsOfSheet (streakSheet ''Combat Deaths'')))
            (loopStart (JStr ''maverick'') newParser)) = Inr (0, 0)
   \<and> (\<exists>s1. forOp (JStr ''maverick'') (hd (opsOfSheet failedSheet))
              (loopStart (JStr ''maverick'') newParser\<lparr>opsWithoutDeath := 4\<rparr>) = Inr s1
          \<and> members' (parser s1) (toStr (JStr ''maverick'')) \<noteq> None
          \<and> opsWithoutDeath s1 \<le> 4 \<and> opsWithoutBolter s1 \<le> 4)"
proof -
  let ?n = "JStr ''maverick''"
  let ?ops = "opsOfSheet (streakSheet ''Combat Deaths'')"
  let ?s = "loopStart ?n newParser\<lparr>opsWithoutDeath := 4\<rparr>"
  have h: "members' (parser ?s) (toStr ?n) \<noteq> None \<and> opsWithoutDeath ?s \<le> 4
     \<and> opsWithoutBolter ?s \<le> 4"
    by (simp add: loopStart_def)
  have four: "map_sum id (\<lambda>s. (opsWithoutDeath s, opsWithoutBolter s))
        (forEachOp ?n (take 4 ?ops) (loopStart ?n newParser)) = Inr (4, 0)"
    unfolding opsOfSheet_def fromSheet_deaths by code_simp
  have five: "map_sum id (\<lambda>s. (opsWithoutDeath s, opsWithoutBolter s))
        (forEachOp ?n (take 5 ?ops) (loopStart ?n newParser)) = Inr (0, 0)"
    unfolding opsOfSheet_def fromSheet_deaths by code_simp
  show ?thesis
    using streak_counters_in_range [of ?n 4 ?ops newParser ?s "hd (opsOfSheet failedSheet)"]
      h four five
    by blast
qed

text \<open>
  Claim C3. From a state of the loop in which the participant's object \<open>om\<close> exists and
  both counters are below the threshold, for every participant and both categories.
  The loop over a sequence of ops ends, and what it has written is the events of the
  threshold rule and nothing else: their lines appended to the achievement history,
  their lines appended to the blocks' entries of the achievement log, and their
  numbers added to the award counters of the participant's record (the record counts
  the no-death events in \<^verbatim>\<open>fiveOpsWithoutBolter\<close> and the no-bolter events in
  \<^verbatim>\<open>fiveOpsWithoutDeath\<close>). When the classifications of a category in the sequence hold
  no Failed and exactly five Passed, exactly one of these events is of the category,
  and the counter ends where it started (at 0 when it started at 0). One run of the
  callback writes the events of that op likewise; the fifth Passed in a row (counter
  at 4) emits one event of the category and resets the counter to 0, and with no
  event of the other category it writes exactly that event's two lines; a Failed
  classification (at 4 or anywhere) resets the counter to 0 and emits no event of the
  category, and with no event of the other category it writes nothing to the history
  and the log.
\<close>

theorem threshold_emits_once:
  fixes s :: Streaks and n :: jsval and om :: OverallMember and ops :: "Op list" and op :: Op
  defines "evs \<equiv> streakEvents n ops (opsWithoutDeath s) (opsWithoutBolter s)
                   (fiveOpsWithoutBolter om) (fiveOpsWithoutDeath om)"
    and "ev1 \<equiv> opEvents n op (opsWithoutDeath s) (opsWithoutBolter s)
                   (fiveOpsWithoutBolter om) (fiveOpsWithoutDeath om)"
  assumes "members' (parser s) (toStr n) = Some om"
    and "opsWithoutDeath s \<le> 4" and "opsWithoutBolter s \<le> 4"
  shows
   "(\<exists>s1. forEachOp n ops s = Inr s1
       \<and> achievementHistory (parser s1) =
            achievementHistory (parser s) @ concat (map historyLine evs)
       \<and> opAchievementLog (parser s1) = foldl writeLog (opAchievementLog (parser s)) evs
       \<and> members' (parser s1) =
            (members' (parser s))(toStr n \<mapsto> om
              \<lparr>history := history om @ streakNarrative n ops (opsWithoutDeath s)
                  (opsWithoutBolter s) (fiveOpsWithoutBolter om) (fiveOpsWithoutDeath om),
               fiveOpsWithoutDeath := fiveOpsWithoutDeath om + eventCount NoBolterStreak evs,
               fiveOpsWithoutBolter := fiveOpsWithoutBolter om + eventCount NoDeathStreak evs\<rparr>)
       \<and> (Failed \<notin> set (map (deathResultOf n) ops)
            \<and> count_list (map (deathResultOf n) ops) Passed = 5
          \<longrightarrow> eventCount NoDeathStreak evs = 1 \<and> opsWithoutDeath s1 = opsWithoutDeath s)
       \<and> (Failed \<notin> set (map (bolterResultOf n) ops)
            \<and> count_list (map (bolterResultOf n) ops) Passed = 5
          \<longrightarrow> eventCount NoBolterStreak evs = 1 \<and> opsWithoutBolter s1 = opsWithoutBolter s))
    \<and> (\<exists>s1. forOp n op s = Inr s1
       \<and> achievementHistory (parser s1) =
            achievementHistory (parser s) @ concat (map historyLine ev1)
       \<and> opAchievementLog (parser s1) = foldl writeLog (opAchievementLog (parser s)) ev1
       \<and> members' (parser s1) =
            (members' (parser s))(toStr n \<mapsto> om
              \<lparr>history := history om @ opNarrative n op (opsWithoutDeath s)
                  (opsWithoutBolter s) (fiveOpsWithoutBolter om) (fiveOpsWithoutDeath om),
               fiveOpsWithoutDeath := fiveOpsWithoutDeath om + eventCount NoBolterStreak ev1,
               fiveOpsWithoutBolter := fiveOpsWithoutBolter om + eventCount NoDeathStreak ev1\<rparr>)
       \<and> (opsWithoutDeath s = 4 \<and> deathResultOf n op = Passed
          \<longrightarrow> opsWithoutDeath s1 = 0 \<and> eventCount NoDeathStreak ev1 = 1)
       \<and> (opsWithoutBolter s = 4 \<and> bolterResultOf n op = Passed
          \<longrightarrow> opsWithoutBolter s1 = 0 \<and> eventCount NoBolterStreak ev1 = 1)
       \<and> (deathResultOf n op = Failed
          \<longrightarrow> opsWithoutDeath s1 = 0 \<and> eventCount NoDeathStreak ev1 = 0)
       \<and> (bolterResultOf n op = Failed
          \<longrightarrow> opsWithoutBolter s1 = 0 \<and> eventCount NoBolterStreak ev1 = 0)
       \<and> (\<forall>m. getMember op n = Some m \<and> opsWithoutDeath s = 4 \<and> deathResultOf n op = Passed
              \<and> \<not> completes (bolterResultOf n op) (opsWithoutBolter s)
          \<longrightarrow> achievementHistory (parser s1) =
                achievementHistory (parser s) @ ''After '' @ name op @ '', ''
                  @ toStr (displayName m) @ '' has not died in 5 ops!\<newline>''
              \<and> opAchievementLog (parser s1) =
                (opAchievementLog (parser s))(name op \<mapsto>
                  (case opAchievementLog (parser s) (name op) of
                     None \<Rightarrow> ''undefined'' | Some t \<Rightarrow> t)
                  @ ''[FIVE OPS WITHOUT DEATH] '' @ toStr (displayName m)
                     @ ''. They now have this award ''
                     @ showNat (fiveOpsWithoutBolter om + 1) @ '' times\<newline>''))
       \<and> (\<forall>m. getMember op n = Some m \<and> opsWithoutBolter s = 4 \<and> bolterResultOf n op = Passed
              \<and> \<not> completes (deathResultOf n op) (opsWithoutDeath s)
          \<longrightarrow> achievementHistory (parser s1) =
                achievementHistory (parser s) @ ''After '' @ name op @ '', ''
                  @ toStr (displayName m) @ '' has not boltered in 5 ops!\<newline>''
              \<and> opAchievementLog (parser s1) =
                (opAchievementLog (parser s))(name op \<mapsto>
                  (case opAchievementLog (parser s) (name op) of
                     None \<Rightarrow> ''undefined'' | Some t \<Rightarrow> t)
                  @ ''[FIVE OPS WITHOUT BOLTER] '' @ toStr (displayName m)
                     @ ''. They now have this award ''
                     @ showNat (fiveOpsWithoutDeath om + 1) @ '' times\<newline>''))
       \<and> (deathResultOf n op = Failed \<and> \<not> completes (bolterResultOf n op) (opsWithoutBolter s)
          \<longrightarrow> achievementHistory (parser s1) = achievementHistory (parser s)
              \<and> opAchievementLog (parser s1) = opAchievementLog (parser s))
       \<and> (bolterResultOf n op = Failed \<and> \<not> completes (deathResultOf n op) (opsWithoutDeath s)
          \<longrightarrow> achievementHistory (parser s1) = achievementHistory (parser s)
              \<and> opAchievementLog (parser s1) = opAchievementLog (parser s)))"
proof -
  let ?d = "opsWithoutDeath s" and ?b = "opsWithoutBolter s"
  from forEachOp_writes [OF assms(3-5), of ops] obtain t where
    t: "forEachOp n ops s = Inr t"
    and td: "opsWithoutDeath t = finalCount (map (deathResultOf n) ops) ?d"
    and tb: "opsWithoutBolter t = finalCount (map (bolterResultOf n) ops) ?b"
    and th: "achievementHistory (parser t) =
          achievementHistory (parser s) @ concat (map historyLine evs)"
    and tl: "opAchievementLog (parser t) = foldl writeLog (opAchievementLog (parser s)) evs"
    and tm: "members' (parser t) =
            (members' (parser s))(toStr n \<mapsto> om
              \<lparr>history := history om @ streakNarrative n ops (opsWithoutDeath s)
                  (opsWithoutBolter s) (fiveOpsWithoutBolter om) (fiveOpsWithoutDeath om),
               fiveOpsWithoutDeath := fiveOpsWithoutDeath om + eventCount NoBolterStreak evs,
               fiveOpsWithoutBolter := fiveOpsWithoutBolter om + eventCount NoDeathStreak evs\<rparr>)"
    unfolding evs_def by blast
  have d_seq: "eventCount NoDeathStreak evs = 1 \<and> opsWithoutDeath t = ?d"
    if "Failed \<notin> set (map (deathResultOf n) ops)
        \<and> count_list (map (deathResultOf n) ops) Passed = 5"
    using that td assms(4)
      finalCount_no_failed [of ?d "map (deathResultOf n) ops"]
      streakEvents_death_count [of ?d n ops ?b "fiveOpsWithoutBolter om" "fiveOpsWithoutDeath om"]
    by (simp add: evs_def)
  have b_seq: "eventCount NoBolterStreak evs = 1 \<and> opsWithoutBolter t = ?b"
    if "Failed \<notin> set (map (bolterResultOf n) ops)
        \<and> count_list (map (bolterResultOf n) ops) Passed = 5"
    using that tb assms(5)
      finalCount_no_failed [of ?b "map (bolterResultOf n) ops"]
      streakEvents_bolter_count [of ?b n ops ?d "fiveOpsWithoutBolter om" "fiveOpsWithoutDeath om"]
    by (simp add: evs_def)
  have loop: "\<exists>s1. forEachOp n ops s = Inr s1
       \<and> achievementHistory (parser s1) =
            achievementHistory (parser s) @ concat (map historyLine evs)
       \<and> opAchievementLog (parser s1) = foldl writeLog (opAchievementLog (parser s)) evs
       \<and> members' (parser s1) =
            (members' (parser s))(toStr n \<mapsto> om
              \<lparr>history := history om @ streakNarrative n ops (opsWithoutDeath s)
                  (opsWithoutBolter s) (fiveOpsWithoutBolter om) (fiveOpsWithoutDeath om),
               fiveOpsWithoutDeath := fiveOpsWithoutDeath om + eventCount NoBolterStreak evs,
               fiveOpsWithoutBolter := fiveOpsWithoutBolter om + eventCount NoDeathStreak evs\<rparr>)
       \<and> (Failed \<notin> set (map (deathResultOf n) ops)
            \<and> count_list (map (deathResultOf n) ops) Passed = 5
          \<longrightarrow> eventCount NoDeathStreak evs = 1 \<and> opsWithoutDeath s1 = opsWithoutDeath s)
       \<and> (Failed \<notin> set (map (bolterResultOf n) ops)
            \<and> count_list (map (bolterResultOf n) ops) Passed = 5
          \<longrightarrow> eventCount NoBolterStreak evs = 1 \<and> opsWithoutBolter s1 = opsWithoutBolter s)"
    using t th tl tm d_seq b_seq by blast
  from forOp_writes [OF assms(3-5), of op] obtain u where
    u: "forOp n op s = Inr u"
    and ud: "opsWithoutDeath u = nextCount (deathResultOf n op) ?d"
    and ub: "opsWithoutBolter u = nextCount (bolterResultOf n op) ?b"
    and uh: "achievementHistory (parser u) =
          achievementHistory (parser s) @ concat (map historyLine ev1)"
    and ul: "opAchievementLog (parser u) = foldl writeLog (opAchievementLog (parser s)) ev1"
    and um: "members' (parser u) =
            (members' (parser s))(toStr n \<mapsto> om
              \<lparr>history := history om @ opNarrative n op (opsWithoutDeath s)
                  (opsWithoutBolter s) (fiveOpsWithoutBolter om) (fiveOpsWithoutDeath om),
               fiveOpsWithoutDeath := fiveOpsWithoutDeath om + eventCount NoBolterStreak ev1,
               fiveOpsWithoutBolter := fiveOpsWithoutBolter om + eventCount NoDeathStreak ev1\<rparr>)"
    unfolding ev1_def by blast
  have cd: "eventCount NoDeathStreak ev1 = (if completes (deathResultOf n op) ?d then 1 else 0)"
    unfolding ev1_def by (rule opEvents_death_count)
  have cb: "eventCount NoBolterStreak ev1 = (if completes (bolterResultOf n op) ?b then 1 else 0)"
    unfolding ev1_def by (rule opEvents_bolter_count)
  have d_fifth: "opsWithoutDeath u = 0 \<and> eventCount NoDeathStreak ev1 = 1"
    if "?d = 4 \<and> deathResultOf n op = Passed"
    using that ud cd by (simp add: nextCount_def completes_def)
  have b_fifth: "opsWithoutBolter u = 0 \<and> eventCount NoBolterStreak ev1 = 1"
    if "?b = 4 \<and> bolterResultOf n op = Passed"
    using that ub cb by (simp add: nextCount_def completes_def)
  have d_fail: "opsWithoutDeath u = 0 \<and> eventCount NoDeathStreak ev1 = 0"
    if "deathResultOf n op = Failed"
    using that ud cd by (simp add: nextCount_def completes_def)
  have b_fail: "opsWithoutBolter u = 0 \<and> eventCount NoBolterStreak ev1 = 0"
    if "bolterResultOf n op = Failed"
    using that ub cb by (simp add: nextCount_def completes_def)
  have d_lines: "achievementHistory (parser u) =
                achievementHistory (parser s) @ ''After '' @ name op @ '', ''
                  @ toStr (displayName m) @ '' has not died in 5 ops!\<newline>''
              \<and> opAchievementLog (parser u) =
                (opAchievementLog (parser s))(name op \<mapsto>
                  (case opAchievementLog (parser s) (name op) of
                     None \<Rightarrow> ''undefined'' | Some t \<Rightarrow> t)
                  @ ''[FIVE OPS WITHOUT DEATH] '' @ toStr (displayName m)
                     @ ''. They now have this award ''
                     @ showNat (fiveOpsWithoutBolter om + 1) @ '' times\<newline>'')"
    if a: "getMember op n = Some m \<and> ?d = 4 \<and> deathResultOf n op = Passed
        \<and> \<not> completes (bolterResultOf n op) ?b" for m
  proof -
    have c1: "completes (deathResultOf n op) ?d" using a by (simp add: completes_def)
    have c0: "\<not> completes (bolterResultOf n op) ?b" and m: "getMember op n = Some m"
      using a by simp_all
    show ?thesis
      using uh ul
      by (simp add: ev1_def opEvents_def c1 c0 m historyLine_def logLine_def writeLog_def)
  qed
  have b_lines: "achievementHistory (parser u) =
                achievementHistory (parser s) @ ''After '' @ name op @ '', ''
                  @ toStr (displayName m) @ '' has not boltered in 5 ops!\<newline>''
              \<and> opAchievementLog (parser u) =
                (opAchievementLog (parser s))(name op \<mapsto>
                  (case opAchievementLog (parser s) (name op) of
                     None \<Rightarrow> ''undefined'' | Some t \<Rightarrow> t)
                  @ ''[FIVE OPS WITHOUT BOLTER] '' @ toStr (displayName m)
                     @ ''. They now have this award ''
                     @ showNat (fiveOpsWithoutDeath om + 1) @ '' times\<newline>'')"
    if a: "getMember op n = Some m \<and> ?b = 4 \<and> bolterResultOf n op = Passed
        \<and> \<not> completes (deathResultOf n op) ?d" for m
  proof -
    have c1: "completes (bolterResultOf n op) ?b" using a by (simp add: completes_def)
    have c0: "\<not> completes (deathResultOf n op) ?d" and m: "getMember op n = Some m"
      using a by simp_all
    show ?thesis
      using uh ul
      by (simp add: ev1_def opEvents_def c1 c0 m historyLine_def logLine_def writeLog_def)
  qed
  have d_none: "achievementHistory (parser u) = achievementHistory (parser s)
              \<and> opAchievementLog (parser u) = opAchievementLog (parser s)"
    if a: "deathResultOf n op = Failed \<and> \<not> completes (bolterResultOf n op) ?b"
  proof -
    have c1: "\<not> completes (deathResultOf n op) ?d" using a by (simp add: completes_def)
    have c0: "\<not> completes (bolterResultOf n op) ?b" using a by simp
    show ?thesis
      using uh ul by (simp add: ev1_def opEvents_def c1 c0 split: option.splits)
  qed
  have b_none: "achievementHistory (parser u) = achievementHistory (parser s)
              \<and> opAchievementLog (parser u) = opAchievementLog (parser s)"
    if a: "bolterResultOf n op = Failed \<and> \<not> completes (deathResultOf n op) ?d"
  proof -
    have c1: "\<not> completes (bolterResultOf n op) ?b" using a by (simp add: completes_def)
    have c0: "\<not> completes (deathResultOf n op) ?d" using a by simp
    show ?thesis
      using uh ul by (simp add: ev1_def opEvents_def c1 c0 split: option.splits)
  qed
  show ?thesis
    apply (rule conjI [OF loop])
    apply (rule exI [of _ u])
    using u uh ul um d_fifth b_fifth d_fail b_fail d_lines b_lines d_none b_none
    apply blast
    done
qed

text \<open>
  The theorem on the sample sheets, from the state in which \<open>parseMember\<close> starts the
  loop for Maverick after \<open>run\<close> has registered the five blocks: five ops without a
  death, five ops without a bolter, the fifth Passed alone, and an op in which
  Maverick died and boltered at counters 4 and 4.
\<close>

theorem threshold_emits_once_witness:
  "(\<exists>s1. forEachOp (JStr ''maverick'') (opsOfSheet (streakSheet ''Combat Deaths''))
            (loopStart (JStr ''maverick'')
               (snd (foldl registerOp ([], newParser)
                  (opsOfSheet (streakSheet ''Combat Deaths''))))) = Inr s1
        \<and> opsWithoutDeath s1 = 0
        \<and> achievementHistory (parser s1) = ''After W E, Maverick has not died in 5 ops!\<newline>''
        \<and> opAchievementLog (parser s1) ''W E'' =
            Some ''------ W E ------\<newline>[FIVE OPS WITHOUT DEATH] Maverick. They now have this award 1 times\<newline>''
        \<and> opAchievementLog (parser s1) ''W D'' = Some ''------ W D ------\<newline>''
        \<and> map_option (\<lambda>om. (fiveOpsWithoutDeath om, fiveOpsWithoutBolter om))
             (members' (parser s1) ''maverick'') = Some (0, 1))
   \<and> (\<exists>s1. forEachOp (JStr ''maverick'') (opsOfSheet (streakSheet ''Bolters''))
            (loopStart (JStr ''maverick'')
               (snd (foldl registerOp ([], newParser)
                  (opsOfSheet (streakSheet ''Bolters''))))) = Inr s1
        \<and> opsWithoutBolter s1 = 0
        \<and> achievementHistory (parser s1) = ''After W E, Maverick has not boltered in 5 ops!\<newline>''
        \<and> opAchievementLog (parser s1) ''W E'' =
            Some ''------ W E ------\<newline>[FIVE OPS WITHOUT BOLTER] Maverick. They now have this award 1 times\<newline>''
        \<and> map_option (\<lambda>om. (fiveOpsWithoutDeath om, fiveOpsWithoutBolter om))
             (members' (parser s1) ''maverick'') = Some (1, 0))
   \<and> (\<exists>s1. forOp (JStr ''maverick'') (hd (opsOfSheet (streakSheet ''Combat Deaths'')))
            (loopStart (JStr ''maverick'') newParser\<lparr>opsWithoutDeath := 4\<rparr>) = Inr s1
        \<and> opsWithoutDeath s1 = 0
        \<and> achievementHistory (parser s1) = ''After W A, Maverick has not died in 5 ops!\<newline>''
        \<and> opAchievementLog (parser s1) ''W A'' =
            Some ''undefined[FIVE OPS WITHOUT DEATH] Maverick. They now have this award 1 times\<newline>'')
   \<and> (\<exists>s1. forOp (JStr ''maverick'') (hd (opsOfSheet (streakSheet ''Bolters'')))
            (loopStart (JStr ''maverick'') newParser\<lparr>opsWithoutBolter := 4\<rparr>) = Inr s1
        \<and> opsWithoutBolter s1 = 0
        \<and> achievementHistory (parser s1) = ''After W A, Maverick has not boltered in 5 ops!\<newline>''
        \<and> opAchievementLog (parser s1) ''W A'' =
            Some ''undefined[FIVE OPS WITHOUT BOLTER] Maverick. They now have this award 1 times\<newline>'')
   \<and> (\<exists>s1. forOp (JStr ''maverick'') (hd (opsOfSheet failedSheet))
            (loopStart (JStr ''maverick'') newParser
               \<lparr>opsWithoutDeath := 4, opsWithoutBolter := 4\<rparr>) = Inr s1
        \<and> opsWithoutDeath s1 = 0 \<and> opsWithoutBolter s1 = 0
        \<and> achievementHistory (parser s1) = []
        \<and> opAchievementLog (parser s1) = Map.empty
        \<and> map_option (\<lambda>om. (fiveOpsWithoutDeath om, fiveOpsWithoutBolter om))
             (members' (parser s1) ''maverick'') = Some (0, 0))"
proof -
  let ?n = "JStr ''maverick''"
  let ?om = "\<lparr>history = [], fiveOpsWithoutDeath = 0, fiveOpsWithoutBolter = 0\<rparr>"
  let ?dOps = "opsOfSheet (streakSheet ''Combat Deaths'')"
  let ?bOps = "opsOfSheet (streakSheet ''Bolters'')"
  let ?fOp = "hd (opsOfSheet failedSheet)"
  let ?sD = "loopStart ?n (snd (foldl registerOp ([], newParser) ?dOps))"
  let ?sB = "loopStart ?n (snd (foldl registerOp ([], newParser) ?bOps))"
  let ?s0 = "loopStart ?n newParser"
  let ?sd = "?s0\<lparr>opsWithoutDeath := 4\<rparr>"
  let ?sb = "?s0\<lparr>opsWithoutBolter := 4\<rparr>"
  let ?sf = "?s0\<lparr>opsWithoutDeath := 4, opsWithoutBolter := 4\<rparr>"
  let ?m = "emptyMember\<lparr>uniqueName := JStr ''maverick'', displayName := JStr ''Maverick''\<rparr>"
  have tk: "toStr ?n = ''maverick''" by (simp add: toStr_def)

  have kD: "members' (parser ?sD) (toStr ?n) = Some ?om" "opsWithoutDeath ?sD \<le> 4"
    "opsWithoutBolter ?sD \<le> 4"
    by (simp_all add: loopStart_def)
  have zD: "opsWithoutDeath ?sD = 0" "opsWithoutBolter ?sD = 0"
    by (simp_all add: loopStart_def)
  have hD: "achievementHistory (parser ?sD) = []"
    unfolding opsOfSheet_def fromSheet_deaths by code_simp
  have d1: "Failed \<notin> set (map (deathResultOf ?n) ?dOps)
      \<and> count_list (map (deathResultOf ?n) ?dOps) Passed = 5"
    unfolding opsOfSheet_def fromSheet_deaths by code_simp
  have eD: "streakEvents ?n ?dOps 0 0 0 0 =
      [\<lparr>blockName = ''W E'', participantDisplayName = ''Maverick'', kind = NoDeathStreak,
        awardOccurrenceCount = 1\<rparr>]"
    unfolding opsOfSheet_def fromSheet_deaths by code_simp
  have lD: "foldl writeLog (opAchievementLog (parser ?sD))
        [\<lparr>blockName = ''W E'', participantDisplayName = ''Maverick'', kind = NoDeathStreak,
          awardOccurrenceCount = 1\<rparr>] ''W E'' =
      Some ''------ W E ------\<newline>[FIVE OPS WITHOUT DEATH] Maverick. They now have this award 1 times\<newline>''"
    "foldl writeLog (opAchievementLog (parser ?sD))
        [\<lparr>blockName = ''W E'', participantDisplayName = ''Maverick'', kind = NoDeathStreak,
          awardOccurrenceCount = 1\<rparr>] ''W D'' = Some ''------ W D ------\<newline>''"
    unfolding opsOfSheet_def fromSheet_deaths by code_simp+
  have xD: "concat (map historyLine
        [\<lparr>blockName = ''W E'', participantDisplayName = ''Maverick'', kind = NoDeathStreak,
          awardOccurrenceCount = 1\<rparr>]) = ''After W E, Maverick has not died in 5 ops!\<newline>''"
    by code_simp
  note TD = threshold_emits_once [OF kD, where ops = ?dOps and op = ?fOp, THEN conjunct1,
      unfolded zD hD, simplified, unfolded eD]
  from TD d1 obtain s1 where
    "forEachOp ?n ?dOps ?sD = Inr s1"
    "achievementHistory (parser s1) = concat (map historyLine
        [\<lparr>blockName = ''W E'', participantDisplayName = ''Maverick'', kind = NoDeathStreak,
          awardOccurrenceCount = 1\<rparr>])"
    "opAchievementLog (parser s1) = foldl writeLog (opAchievementLog (parser ?sD))
        [\<lparr>blockName = ''W E'', participantDisplayName = ''Maverick'', kind = NoDeathStreak,
          awardOccurrenceCount = 1\<rparr>]"
    "map_option (\<lambda>om. (fiveOpsWithoutDeath om, fiveOpsWithoutBolter om))
             (members' (parser s1) ''maverick'') = Some (0, 1)"
    "opsWithoutDeath s1 = 0"
    by (auto simp: tk eventCount_def)
  then have A: "\<exists>s1. forEachOp ?n ?dOps ?sD = Inr s1
        \<and> opsWithoutDeath s1 = 0
        \<and> achievementHistory (parser s1) = ''After W E, Maverick has not died in 5 ops!\<newline>''
        \<and> opAchievementLog (parser s1) ''W E'' =
            Some ''------ W E ------\<newline>[FIVE OPS WITHOUT DEATH] Maverick. They now have this award 1 times\<newline>''
        \<and> opAchievementLog (parser s1) ''W D'' = Some ''------ W D ------\<newline>''
        \<and> map_option (\<lambda>om. (fiveOpsWithoutDeath om, fiveOpsWithoutBolter om))
             (members' (parser s1) ''maverick'') = Some (0, 1)"
    using lD xD by simp
  have kB: "members' (parser ?sB) (toStr ?n) = Some ?om" "opsWithoutDeath ?sB \<le> 4"
    "opsWithoutBolter ?sB \<le> 4"
    by (simp_all add: loopStart_def)
  have zB: "opsWithoutDeath ?sB = 0" "opsWithoutBolter ?sB = 0"
    by (simp_all add: loopStart_def)
  have hB: "achievementHistory (parser ?sB) = []"
    unfolding opsOfSheet_def fromSheet_bolters by code_simp
  have b1: "Failed \<notin> set (map (bolterResultOf ?n) ?bOps)
      \<and> count_list (map (bolterResultOf ?n) ?bOps) Passed = 5"
    unfolding opsOfSheet_def fromSheet_bolters by code_simp
  have eB: "streakEvents ?n ?bOps 0 0 0 0 =
      [\<lparr>blockName = ''W E'', participantDisplayName = ''Maverick'', kind = NoBolterStreak,
        awardOccurrenceCount = 1\<rparr>]"
    unfolding opsOfSheet_def fromSheet_bolters by code_simp
  have lB: "foldl writeLog (opAchievementLog (parser ?sB))
        [\<lparr>blockName = ''W E'', participantDisplayName = ''Maverick'', kind = NoBolterStreak,
          awardOccurrenceCount = 1\<rparr>] ''W E'' =
      Some ''------ W E ------\<newline>[FIVE OPS WITHOUT BOLTER] Maverick. They now have this award 1 times\<newline>''"
    unfolding opsOfSheet_def fromSheet_bolters by code_simp
  have xB: "concat (map historyLine
        [\<lparr>blockName = ''W E'', participantDisplayName = ''Maverick'', kind = NoBolterStreak,
          awardOccurrenceCount = 1\<rparr>]) = ''After W E, Maverick has not boltered in 5 ops!\<newline>''"
    by code_simp
  note TB = threshold_emits_once [OF kB, where ops = ?bOps and op = ?fOp, THEN conjunct1,
      unfolded zB hB, simplified, unfolded eB]
  from TB b1 obtain s2 where
    "forEachOp ?n ?bOps ?sB = Inr s2"
    "achievementHistory (parser s2) = concat (map historyLine
        [\<lparr>blockName = ''W E'', participantDisplayName = ''Maverick'', kind = NoBolterStreak,
          awardOccurrenceCount = 1\<rparr>])"
    "opAchievementLog (parser s2) = foldl writeLog (opAchievementLog (parser ?sB))
        [\<lparr>blockName = ''W E'', participantDisplayName = ''Maverick'', kind = NoBolterStreak,
          awardOccurrenceCount = 1\<rparr>]"
    "map_option (\<lambda>om. (fiveOpsWithoutDeath om, fiveOpsWithoutBolter om))
             (members' (parser s2) ''maverick'') = Some (1, 0)"
    "opsWithoutBolter s2 = 0"
    by (auto simp: tk eventCount_def)
  then have B: "\<exists>s1. forEachOp ?n ?bOps ?sB = Inr s1
        \<and> opsWithoutBolter s1 = 0
        \<and> achievementHistory (parser s1) = ''After W E, Maverick has not boltered in 5 ops!\<newline>''
        \<and> opAchievementLog (parser s1) ''W E'' =
            Some ''------ W E ------\<newline>[FIVE OPS WITHOUT BOLTER] Maverick. They now have this award 1 times\<newline>''
        \<and> map_option (\<lambda>om. (fiveOpsWithoutDeath om, fiveOpsWithoutBolter om))
             (members' (parser s1) ''maverick'') = Some (1, 0)"
    using lB xB by simp

  let ?md = "emptyMember\<lparr>uniqueName := JStr ''maverick'', displayName := JStr ''Maverick'',
      combatDeaths := JStr ''0''\<rparr>"
  have kd: "members' (parser ?sd) (toStr ?n) = Some ?om" "opsWithoutDeath ?sd \<le> 4"
    "opsWithoutBolter ?sd \<le> 4"
    by (simp_all add: loopStart_def)
  have zd: "opsWithoutDeath ?sd = 4" "opsWithoutBolter ?sd = 0"
    "achievementHistory (parser ?sd) = []" "opAchievementLog (parser ?sd) = Map.empty"
    by (simp_all add: loopStart_def newParser_def)
  have gd: "getMember (hd ?dOps) ?n = Some ?md \<and> deathResultOf ?n (hd ?dOps) = Passed
      \<and> \<not> completes (bolterResultOf ?n (hd ?dOps)) 0"
    unfolding opsOfSheet_def fromSheet_deaths by code_simp
  have wd: "[] @ ''After '' @ name (hd ?dOps) @ '', '' @ toStr (displayName ?md)
        @ '' has not died in 5 ops!\<newline>'' = ''After W A, Maverick has not died in 5 ops!\<newline>''"
    "((Map.empty)(name (hd ?dOps) \<mapsto>
       (case Map.empty (name (hd ?dOps)) of
          None \<Rightarrow> ''undefined'' | Some t \<Rightarrow> t)
       @ ''[FIVE OPS WITHOUT DEATH] '' @ toStr (displayName ?md)
         @ ''. They now have this award '' @ showNat (0 + 1) @ '' times\<newline>'')) ''W A'' =
      Some ''undefined[FIVE OPS WITHOUT DEATH] Maverick. They now have this award 1 times\<newline>''"
    unfolding opsOfSheet_def fromSheet_deaths by code_simp+
  note Td = threshold_emits_once [OF kd, where ops = "[]" and op = "hd ?dOps", THEN conjunct2,
      unfolded zd]
  from Td gd obtain s3 where
    "forOp ?n (hd ?dOps) ?sd = Inr s3" "opsWithoutDeath s3 = 0"
    "achievementHistory (parser s3) = [] @ ''After '' @ name (hd ?dOps) @ '', ''
        @ toStr (displayName ?md) @ '' has not died in 5 ops!\<newline>''"
    "opAchievementLog (parser s3) = (Map.empty)(name (hd ?dOps) \<mapsto>
       (case Map.empty (name (hd ?dOps)) of
          None \<Rightarrow> ''undefined'' | Some t \<Rightarrow> t)
       @ ''[FIVE OPS WITHOUT DEATH] '' @ toStr (displayName ?md)
         @ ''. They now have this award '' @ showNat (0 + 1) @ '' times\<newline>'')"
    by auto
  then have C: "\<exists>s1. forOp ?n (hd ?dOps) ?sd = Inr s1
        \<and> opsWithoutDeath s1 = 0
        \<and> achievementHistory (parser s1) = ''After W A, Maverick has not died in 5 ops!\<newline>''
        \<and> opAchievementLog (parser s1) ''W A'' =
            Some ''undefined[FIVE OPS WITHOUT DEATH] Maverick. They now have this award 1 times\<newline>''"
    using wd by simp

  let ?mb = "emptyMember\<lparr>uniqueName := JStr ''maverick'', displayName := JStr ''Maverick'',
      bolters := JStr ''0''\<rparr>"
  have kb: "members' (parser ?sb) (toStr ?n) = Some ?om" "opsWithoutDeath ?sb \<le> 4"
    "opsWithoutBolter ?sb \<le> 4"
    by (simp_all add: loopStart_def)
  have zb: "opsWithoutDeath ?sb = 0" "opsWithoutBolter ?sb = 4"
    "achievementHistory (parser ?sb) = []" "opAchievementLog (parser ?sb) = Map.empty"
    by (simp_all add: loopStart_def newParser_def)
  have gb: "getMember (hd ?bOps) ?n = Some ?mb \<and> bolterResultOf ?n (hd ?bOps) = Passed
      \<and> \<not> completes (deathResultOf ?n (hd ?bOps)) 0"
    unfolding opsOfSheet_def fromSheet_bolters by code_simp
  have wb: "[] @ ''After '' @ name (hd ?bOps) @ '', '' @ toStr (displayName ?mb)
        @ '' has not boltered in 5 ops!\<newline>''
        = ''After W A, Maverick has not boltered in 5 ops!\<newline>''"
    "((Map.empty)(name (hd ?bOps) \<mapsto>
       (case Map.empty (name (hd ?bOps)) of
          None \<Rightarrow> ''undefined'' | Some t \<Rightarrow> t)
       @ ''[FIVE OPS WITHOUT BOLTER] '' @ toStr (displayName ?mb)
         @ ''. They now have this award '' @ showNat (0 + 1) @ '' times\<newline>'')) ''W A'' =
      Some ''undefined[FIVE OPS WITHOUT BOLTER] Maverick. They now have this award 1 times\<newline>''"
    unfolding opsOfSheet_def fromSheet_bolters by code_simp+
  note Tb = threshold_emits_once [OF kb, where ops = "[]" and op = "hd ?bOps", THEN conjunct2,
      unfolded zb]
  from Tb gb obtain s4 where
    "forOp ?n (hd ?bOps) ?sb = Inr s4" "opsWithoutBolter s4 = 0"
    "achievementHistory (parser s4) = [] @ ''After '' @ name (hd ?bOps) @ '', ''
        @ toStr (displayName ?mb) @ '' has not boltered in 5 ops!\<newline>''"
    "opAchievementLog (parser s4) = (Map.empty)(name (hd ?bOps) \<mapsto>
       (case Map.empty (name (hd ?bOps)) of
          None \<Rightarrow> ''undefined'' | Some t \<Rightarrow> t)
       @ ''[FIVE OPS WITHOUT BOLTER] '' @ toStr (displayName ?mb)
         @ ''. They now have this award '' @ showNat (0 + 1) @ '' times\<newline>'')"
    by auto
  then have D: "\<exists>s1. forOp ?n (hd ?bOps) ?sb = Inr s1
        \<and> opsWithoutBolter s1 = 0
        \<and> achievementHistory (parser s1) = ''After W A, Maverick has not boltered in 5 ops!\<newline>''
        \<and> opAchievementLog (parser s1) ''W A'' =
            Some ''undefined[FIVE OPS WITHOUT BOLTER] Maverick. They now have this award 1 times\<newline>''"
    using wb by simp

  have kf: "members' (parser ?sf) (toStr ?n) = Some ?om" "opsWithoutDeath ?sf \<le> 4"
    "opsWithoutBolter ?sf \<le> 4"
    by (simp_all add: loopStart_def)
  have zf: "opsWithoutDeath ?sf = 4" "opsWithoutBolter ?sf = 4"
    "achievementHistory (parser ?sf) = []" "opAchievementLog (parser ?sf) = Map.empty"
    by (simp_all add: loopStart_def newParser_def)
  have gf: "deathResultOf ?n ?fOp = Failed \<and> bolterResultOf ?n ?fOp = Failed
      \<and> \<not> completes (bolterResultOf ?n ?fOp) 4 \<and> \<not> completes (deathResultOf ?n ?fOp) 4"
    unfolding opsOfSheet_def fromSheet_failed by code_simp
  note Tf = threshold_emits_once [OF kf, where ops = "[]" and op = ?fOp, THEN conjunct2,
      unfolded zf]
  from Tf gf obtain s5 where
    "forOp ?n ?fOp ?sf = Inr s5" "opsWithoutDeath s5 = 0" "opsWithoutBolter s5 = 0"
    "achievementHistory (parser s5) = []" "opAchievementLog (parser s5) = Map.empty"
    "eventCount NoDeathStreak (opEvents ?n ?fOp 4 4 0 0) = 0"
    "eventCount NoBolterStreak (opEvents ?n ?fOp 4 4 0 0) = 0"
    "members' (parser s5) =
       (members' (parser ?sf))(toStr ?n \<mapsto> ?om
          \<lparr>history := history ?om @ opNarrative ?n ?fOp 4 4 0 0,
           fiveOpsWithoutDeath := 0 + eventCount NoBolterStreak (opEvents ?n ?fOp 4 4 0 0),
           fiveOpsWithoutBolter := 0 + eventCount NoDeathStreak (opEvents ?n ?fOp 4 4 0 0)\<rparr>)"
    by auto
  then have E: "\<exists>s1. forOp ?n ?fOp ?sf = Inr s1
        \<and> opsWithoutDeath s1 = 0 \<and> opsWithoutBolter s1 = 0
        \<and> achievementHistory (parser s1) = []
        \<and> opAchievementLog (parser s1) = Map.empty
        \<and> map_option (\<lambda>om. (fiveOpsWithoutDeath om, fiveOpsWithoutBolter om))
             (members' (parser s1) ''maverick'') = Some (0, 0)"
    by (simp add: tk)
  show ?thesis
    using A B C D E by blast
qed


subsection \<open>Where the code departs from the specification\<close>

text \<open>
  Claim C1 says that a completed no-death streak increments and reports the
  participant's death-category award counter, and a completed no-bolter streak the
  bolter-category one. The code does the opposite (lines 313 and 317, 324 and 328):
  after five ops without a death, and no bolter data, the participant's record has
  \<^verbatim>\<open>fiveOpsWithoutDeath\<close> = 0 and \<^verbatim>\<open>fiveOpsWithoutBolter\<close> = 1, and the number in the
  log line of the death award is read from \<^verbatim>\<open>fiveOpsWithoutBolter\<close>; after five ops
  without a bolter, and no death data, it is the other way round.
\<close>

theorem award_counter_swapped:
  "map_sum id (\<lambda>r. (map_option (\<lambda>om. (fiveOpsWithoutDeath om, fiveOpsWithoutBolter om))
                        (members' (parserAfter r) ''maverick''),
                     opAchievementLog (parserAfter r) ''W E''))
     (run newParser [streakSheet ''Combat Deaths''])
   = Inr (Some (0, 1),
          Some ''------ W E ------\<newline>[FIVE OPS WITHOUT DEATH] Maverick. They now have this award 1 times\<newline>'')
   \<and> map_sum id (\<lambda>r. (map_option (\<lambda>om. (fiveOpsWithoutDeath om, fiveOpsWithoutBolter om))
                        (members' (parserAfter r) ''maverick''),
                     opAchievementLog (parserAfter r) ''W E''))
     (run newParser [streakSheet ''Bolters''])
   = Inr (Some (1, 0),
          Some ''------ W E ------\<newline>[FIVE OPS WITHOUT BOLTER] Maverick. They now have this award 1 times\<newline>'')"
proof -
  have d: "map_sum id (\<lambda>r. (map_option (\<lambda>om. (fiveOpsWithoutDeath om, fiveOpsWithoutBolter om))
                        (members' (parserAfter r) ''maverick''),
                     opAchievementLog (parserAfter r) ''W E''))
     (run newParser [streakSheet ''Combat Deaths''])
   = Inr (Some (0, 1),
          Some ''------ W E ------\<newline>[FIVE OPS WITHOUT DEATH] Maverick. They now have this award 1 times\<newline>'')"
    unfolding run_def collectOps_streakSheet fromSheet_deaths by code_simp
  have b: "map_sum id (\<lambda>r. (map_option (\<lambda>om. (fiveOpsWithoutDeath om, fiveOpsWithoutBolter om))
                        (members' (parserAfter r) ''maverick''),
                     opAchievementLog (parserAfter r) ''W E''))
     (run newParser [streakSheet ''Bolters''])
   = Inr (Some (1, 0),
          Some ''------ W E ------\<newline>[FIVE OPS WITHOUT BOLTER] Maverick. They now have this award 1 times\<newline>'')"
    unfolding run_def collectOps_streakSheet fromSheet_bolters by code_simp
  show ?thesis using d b by (rule conjI)
qed

text \<open>
  Claim C2 says that \<open>run\<close> returns the record of members, achievement history and
  achievement log. The code returns at line 250, before that record is built: whenever
  \<open>run\<close> completes, the value it returns is \<^verbatim>\<open>undefined\<close> (\<open>None\<close>), for every parser
  state and every document, and so for the five-block sample.
\<close>

theorem run_returns_undefined:
  "(case run p sheetsByIndex of Inl e \<Rightarrow> True | Inr r \<Rightarrow> returned r = None)
   \<and> map_sum id (\<lambda>r. returned r = None) (run newParser [streakSheet ''Combat Deaths''])
       = Inr True"
proof
  show "case run p sheetsByIndex of Inl e \<Rightarrow> True | Inr r \<Rightarrow> returned r = None"
    by (simp add: run_def Let_def split: sum.splits)
next
  show "map_sum id (\<lambda>r. returned r = None) (run newParser [streakSheet ''Combat Deaths''])
       = Inr True"
    unfolding run_def collectOps_streakSheet fromSheet_deaths by code_simp
qed

text \<open>
  Claim C8 says that a second run on the same document gives the same achievement
  history as the first. \<open>run\<close> resets the entries of \<^verbatim>\<open>members\<close> and of
  \<^verbatim>\<open>opAchievementLog\<close> it writes, but only ever appends to \<^verbatim>\<open>achievementHistory\<close>: on the
  five-block sample, the history after a second run of the same parser holds the line
  of the first run twice.
\<close>

theorem rerun_repeats_history:
  "(case run newParser [streakSheet ''Combat Deaths''] of
      Inl e \<Rightarrow> None
    | Inr r1 \<Rightarrow>
        (case run (parserAfter r1) [streakSheet ''Combat Deaths''] of
           Inl e \<Rightarrow> None
         | Inr r2 \<Rightarrow>
             Some (achievementHistory (parserAfter r1), achievementHistory (parserAfter r2))))
   = Some (''After W E, Maverick has not died in 5 ops!\<newline>'',
           ''After W E, Maverick has not died in 5 ops!\<newline>After W E, Maverick has not died in 5 ops!\<newline>'')"
  unfolding run_def collectOps_streakSheet fromSheet_deaths by code_simp

text \<open>
  Claim C10 says that block discovery never reads a cell at a negative row. For a
  sheet whose row 0 holds \<^verbatim>\<open>Name\<close> in column 0, \<open>fromSheet\<close> reads the timeslot at row
  \<open>0 - 1\<close> (line 81); the read is refused with \<^verbatim>\<open>Min coordinate is 0, 0\<close> and the
  extraction ends with that exception.
\<close>

theorem header_in_first_row_reads_above:
  "fromSheet nameAtTopSheet = Inl MinCoordinate
   \<and> getCell nameAtTopSheet (int 0 - 1) 0 = Inl MinCoordinate
   \<and> getCell nameAtTopSheet (int 0) 0 = Inr (JStr ''Name'')"
  by code_simp

subsection \<open>Reading the sheet\<close>

lemma getCell_in_range:
  "r < rowCount sheet \<Longrightarrow> c < columnCount sheet \<Longrightarrow>
   getCell sheet (int r) (int c) = Inr (cellValue sheet r c)"
  by (simp add: getCell_def)

lemma getCell_next_column:
  "r < rowCount sheet \<Longrightarrow> c + 1 < columnCount sheet \<Longrightarrow>
   getCell sheet (int r) (int c + 1) = Inr (cellValue sheet r (c + 1))"
  using getCell_in_range [of r sheet "c + 1"] by (simp add: add.commute)

lemma isWhite_lowerChar: "isWhite c \<Longrightarrow> lowerChar c = c"
  by (auto simp: isWhite_def lowerChar_def)

lemma lowerChar_not_white:
  "lowerChar a = CHR ''c'' \<or> lowerChar a = CHR ''g'' \<Longrightarrow> \<not> isWhite a"
  using isWhite_lowerChar [of a] by (auto simp: isWhite_def)

lemma lower_config_trim:
  assumes "toLowerCase s = ''config''"
  shows "trim s = s"
proof -
  from assms obtain a b c d e f where
    s: "s = [a, b, c, d, e, f]" and a: "lowerChar a = CHR ''c''" and f: "lowerChar f = CHR ''g''"
    by (auto simp: toLowerCase_def map_eq_Cons_conv)
  have "\<not> isWhite a" "\<not> isWhite f"
    using a f lowerChar_not_white by blast+
  then show ?thesis by (simp add: s trim_def)
qed

lemma noConfigText_noConfigCell: "noConfigText sheet \<Longrightarrow> noConfigCell sheet"
  unfolding noConfigText_def noConfigCell_def isConfigCell_def
  using lower_config_trim by fastforce

lemma findConfigColumn_none:
  "row < rowCount sheet \<Longrightarrow>
   \<forall>c \<in> set cols. c < columnCount sheet \<and> \<not> isConfigCell (cellValue sheet row c) \<Longrightarrow>
   findConfigColumn sheet row cols = Inr None"
  by (induction cols) (simp_all add: getCell_in_range)

lemma findConfigColumn_some:
  "row < rowCount sheet \<Longrightarrow>
   \<forall>c \<in> set pre. c < columnCount sheet \<and> \<not> isConfigCell (cellValue sheet row c) \<Longrightarrow>
   c0 < columnCount sheet \<Longrightarrow> isConfigCell (cellValue sheet row c0) \<Longrightarrow>
   findConfigColumn sheet row (pre @ c0 # post) = Inr (Some c0)"
  by (induction pre) (simp_all add: getCell_in_range)

lemma upt_split: "i < n \<Longrightarrow> [0..<n] = [0..<i] @ i # [Suc i..<n]"
proof -
  assume i: "i < n"
  then have "[0..<n] = [0..<i + (n - i)]" by simp
  also have "\<dots> = [0..<i] @ [i..<i + (n - i)]" by (rule upt_add_eq_append) simp
  also have "[i..<i + (n - i)] = i # [Suc i..<n]" using i by (simp add: upt_conv_Cons)
  finally show ?thesis .
qed

lemma findConfig_none:
  "\<forall>r \<in> set rows. r < rowCount sheet
      \<and> (\<forall>c \<in> set [0..<columnCount sheet]. \<not> isConfigCell (cellValue sheet r c)) \<Longrightarrow>
   findConfig sheet rows = Inr None"
  by (induction rows) (simp_all add: findConfigColumn_none)

lemma findConfig_some:
  "\<forall>r \<in> set pre. r < rowCount sheet
      \<and> (\<forall>c \<in> set [0..<columnCount sheet]. \<not> isConfigCell (cellValue sheet r c)) \<Longrightarrow>
   findConfigColumn sheet r0 [0..<columnCount sheet] = Inr (Some c0) \<Longrightarrow>
   findConfig sheet (pre @ r0 # post) = Inr (Some (r0, c0))"
  by (induction pre) (simp_all add: findConfigColumn_none)

lemma findConfig_anchor:
  assumes "isAnchor sheet r0 c0"
  shows "findConfig sheet [0..<rowCount sheet] = Inr (Some (r0, c0))"
proof -
  from assms have r0: "r0 < rowCount sheet" and c0: "c0 < columnCount sheet"
    and cell: "isConfigCell (cellValue sheet r0 c0)"
    and above: "\<forall>r \<in> set [0..<r0]. \<forall>c \<in> set [0..<columnCount sheet].
            \<not> isConfigCell (cellValue sheet r c)"
    and left: "\<forall>c \<in> set [0..<c0]. \<not> isConfigCell (cellValue sheet r0 c)"
    by (simp_all add: isAnchor_def)
  have col: "findConfigColumn sheet r0 [0..<columnCount sheet] = Inr (Some c0)"
    unfolding upt_split [OF c0]
    using left c0 by (intro findConfigColumn_some [OF r0 _ c0 cell]) auto
  have pre: "\<forall>r \<in> set [0..<r0]. r < rowCount sheet
      \<and> (\<forall>c \<in> set [0..<columnCount sheet]. \<not> isConfigCell (cellValue sheet r c))"
    using above r0 by auto
  show ?thesis
    unfolding upt_split [OF r0]
    by (rule findConfig_some [OF pre col])
qed

lemma lastWins_Cons:
  "lastWins sheet c0 (r # rows) dflt = lastWins sheet c0 rows (cellValue sheet r (c0 + 1))"
  by (simp add: lastWins_def)

lemma readConfig_lastWins:
  "c0 + 1 < columnCount sheet \<Longrightarrow> \<forall>r \<in> set rows. r < rowCount sheet \<Longrightarrow>
   readConfig sheet c0 rows cfg =
     Inr \<lparr>countBolters =
            lastWins sheet c0
              (filter (\<lambda>r. isKeyCell ''count bolters'' (cellValue sheet r c0)) rows)
              (countBolters cfg),
          countDeaths =
            lastWins sheet c0
              (filter (\<lambda>r. isKeyCell ''count deaths'' (cellValue sheet r c0)) rows)
              (countDeaths cfg)\<rparr>"
proof (induction rows arbitrary: cfg)
  case Nil
  then show ?case by (simp add: lastWins_def)
next
  case (Cons r rows)
  have r: "r < rowCount sheet" and rest: "\<forall>r \<in> set rows. r < rowCount sheet"
    using Cons.prems(2) by simp_all
  have c0: "c0 < columnCount sheet" using Cons.prems(1) by simp
  note IH = Cons.IH [OF Cons.prems(1) rest]
  show ?case
    by (simp add: getCell_in_range [OF r c0] getCell_next_column [OF r Cons.prems(1)]
        IH isKeyCell_def lastWins_Cons Let_def)
qed

subsection \<open>The config block\<close>

text \<open>
  Claim C7, as the code has it. A grid with no config cell resolves to the default
  config; so does a grid with no cell whose trimmed lower-case text is \<^verbatim>\<open>config\<close>. When
  the grid has a config cell, the anchor is the first one in row-major order; every
  row below it down to the last row of the grid is read in the anchor's column, and
  each flag is the value in the column right of the last row whose cell is the flag's
  key, or \<^verbatim>\<open>true\<close> when no row is. That column has to be a column of the grid. The
  test of a config cell and of a key cell is on the lower-case text, not trimmed.
\<close>

theorem getOpConfig_last_key_row_wins:
  "(noConfigCell sheet \<longrightarrow> getOpConfig sheet = Inr defaultConfig)
   \<and> (noConfigText sheet \<longrightarrow> getOpConfig sheet = Inr defaultConfig)
   \<and> (isAnchor sheet r0 c0 \<and> c0 + 1 < columnCount sheet \<longrightarrow>
        getOpConfig sheet =
          Inr \<lparr>countBolters =
                 lastWins sheet c0 (keyRows sheet r0 c0 ''count bolters'') (JBool True),
               countDeaths =
                 lastWins sheet c0 (keyRows sheet r0 c0 ''count deaths'') (JBool True)\<rparr>)"
proof -
  have none: "getOpConfig sheet = Inr defaultConfig" if "noConfigCell sheet"
  proof -
    have "findConfig sheet [0..<rowCount sheet] = Inr None"
      using that by (intro findConfig_none) (simp add: noConfigCell_def)
    then show ?thesis by (simp add: getOpConfig_def)
  qed
  have some: "getOpConfig sheet =
          Inr \<lparr>countBolters =
                 lastWins sheet c0 (keyRows sheet r0 c0 ''count bolters'') (JBool True),
               countDeaths =
                 lastWins sheet c0 (keyRows sheet r0 c0 ''count deaths'') (JBool True)\<rparr>"
    if a: "isAnchor sheet r0 c0" and c: "c0 + 1 < columnCount sheet"
  proof -
    have rc: "readConfig sheet c0 [r0 + 1..<rowCount sheet] defaultConfig =
          Inr \<lparr>countBolters =
                 lastWins sheet c0 (keyRows sheet r0 c0 ''count bolters'') (JBool True),
               countDeaths =
                 lastWins sheet c0 (keyRows sheet r0 c0 ''count deaths'') (JBool True)\<rparr>"
      using readConfig_lastWins [OF c, of "[r0 + 1..<rowCount sheet]" defaultConfig]
      by (simp add: keyRows_def defaultConfig_def)
    show ?thesis
      using rc by (simp add: getOpConfig_def findConfig_anchor [OF a])
  qed
  show ?thesis
    using none some noConfigText_noConfigCell by blast
qed

text \<open>
  Against claim C7 as stated: the first cell of \<open>paddedConfigSheet\<close> has the trimmed
  lower-case text \<^verbatim>\<open>config\<close>, and the row below it is a \<^verbatim>\<open>Count Bolters\<close> row with
  \<^verbatim>\<open>false\<close> next to it, yet the resolved config is the default: the cell's text is
  compared untrimmed, so it is no anchor.
\<close>

theorem padded_config_marker_is_no_anchor:
  "toLowerCase (trim (toStr (cellValue paddedConfigSheet 0 0))) = ''config''
   \<and> isKeyCell ''count bolters'' (cellValue paddedConfigSheet 1 0)
   \<and> cellValue paddedConfigSheet 1 1 = JBool False
   \<and> getOpConfig paddedConfigSheet = Inr \<lparr>countBolters = JBool True, countDeaths = JBool True\<rparr>"
  by code_simp

text \<open>The theorem on \<open>configSheet\<close> (two \<^verbatim>\<open>Count Bolters\<close> rows, the last one wins),
  and on two sheets with no config cell.\<close>

theorem getOpConfig_last_key_row_wins_witness:
  "getOpConfig configSheet = Inr \<lparr>countBolters = JBool True, countDeaths = JBool False\<rparr>
   \<and> keyRows configSheet 0 1 ''count bolters'' = [1, 2]
   \<and> keyRows configSheet 0 1 ''count deaths'' = [4]
   \<and> getOpConfig failedSheet = Inr defaultConfig
   \<and> getOpConfig paddedConfigSheet = Inr defaultConfig"
proof -
  have a: "isAnchor configSheet 0 1 \<and> 1 + 1 < columnCount configSheet" by code_simp
  have kb: "keyRows configSheet 0 1 ''count bolters'' = [1, 2]" by code_simp
  have kd: "keyRows configSheet 0 1 ''count deaths'' = [4]" by code_simp
  have vb: "lastWins configSheet 1 [1, 2] (JBool True) = JBool True" by code_simp
  have vd: "lastWins configSheet 1 [4] (JBool True) = JBool False" by code_simp
  have n: "noConfigText failedSheet" by code_simp
  have p: "noConfigCell paddedConfigSheet" by code_simp
  have A: "getOpConfig configSheet = Inr \<lparr>countBolters = JBool True, countDeaths = JBool False\<rparr>"
    using getOpConfig_last_key_row_wins [of configSheet 0 1] a
    unfolding kb kd vb vd by blast
  have B: "getOpConfig failedSheet = Inr defaultConfig"
    using getOpConfig_last_key_row_wins [of failedSheet 0 0] n by blast
  have C: "getOpConfig paddedConfigSheet = Inr defaultConfig"
    using getOpConfig_last_key_row_wins [of paddedConfigSheet 0 0] p by blast
  show ?thesis using A B C kb kd by simp
qed


subsection \<open>Member rows\<close>

lemma setField_other: "k \<noteq> K_uniqueName \<Longrightarrow> uniqueName (setField k v m) = uniqueName m"
  by (cases k) simp_all

lemma readFields_keeps_name:
  "row < rowCount sheet \<Longrightarrow> \<forall>kc \<in> set mapping. snd kc < columnCount sheet \<Longrightarrow>
   K_uniqueName \<notin> fst ` set mapping \<Longrightarrow>
   \<exists>m. readFields sheet row mapping member = Inr m \<and> uniqueName m = uniqueName member"
proof (induction mapping arbitrary: member)
  case Nil
  then show ?case by simp
next
  case (Cons kc mapping)
  obtain k c where kc: "kc = (k, c)" by (cases kc)
  have k: "k \<noteq> K_uniqueName" and c: "c < columnCount sheet"
    using Cons.prems kc by auto
  have rest: "\<forall>kc \<in> set mapping. snd kc < columnCount sheet"
    "K_uniqueName \<notin> fst ` set mapping"
    using Cons.prems by auto
  from Cons.IH [OF Cons.prems(1) rest, of "setField k (cellValue sheet row c) member"]
  show ?case
    by (simp add: kc getCell_in_range [OF Cons.prems(1) c] setField_other [OF k])
qed

lemma readFields_name:
  "row < rowCount sheet \<Longrightarrow> \<forall>kc \<in> set mapping. snd kc < columnCount sheet \<Longrightarrow>
   distinct (map fst mapping) \<Longrightarrow> (K_uniqueName, c) \<in> set mapping \<Longrightarrow>
   \<exists>m. readFields sheet row mapping member = Inr m \<and> uniqueName m = cellValue sheet row c"
proof (induction mapping arbitrary: member)
  case Nil
  then show ?case by simp
next
  case (Cons kc mapping)
  obtain k c1 where kc: "kc = (k, c1)" by (cases kc)
  have c1: "c1 < columnCount sheet" using Cons.prems(2) kc by simp
  have rest: "\<forall>kc \<in> set mapping. snd kc < columnCount sheet"
    using Cons.prems(2) by simp
  have dist: "distinct (map fst mapping)" and fresh: "k \<notin> fst ` set mapping"
    using Cons.prems(3) kc by auto
  show ?case
  proof (cases "k = K_uniqueName")
    case True
    then have cc: "c1 = c" using Cons.prems(4) fresh kc by force
    have g: "getCell sheet (int row) (int c) = Inr (cellValue sheet row c)"
      using getCell_in_range [OF Cons.prems(1) c1] cc by simp
    have "K_uniqueName \<notin> fst ` set mapping" using True fresh by simp
    from readFields_keeps_name [OF Cons.prems(1) rest this,
        of "setField K_uniqueName (cellValue sheet row c) member"]
    show ?thesis
      using True cc by (simp add: kc g)
  next
    case False
    then have "(K_uniqueName, c) \<in> set mapping" using Cons.prems(4) kc by auto
    from Cons.IH [OF Cons.prems(1) rest dist this,
        of "setField k (cellValue sheet row c1) member"]
    show ?thesis
      by (simp add: kc getCell_in_range [OF Cons.prems(1) c1])
  qed
qed

text \<open>
  Claim C6, as the code has it. For a row whose identity cell holds a non-empty
  string, \<open>parseOpMemberRow\<close> sets the identity key to the lower-case form of that
  string (it does not trim it) and the display name to the string as it is. The
  mapping is a column map: one column per key, each a column of the grid (as every
  map that \<open>loadColumnMap\<close> builds is).
\<close>

theorem parseOpMemberRow_lowercases_name:
  assumes "row < rowCount sheet"
    and "\<forall>kc \<in> set mapping. snd kc < columnCount sheet"
    and "distinct (map fst mapping)"
    and "(K_uniqueName, c) \<in> set mapping"
    and "cellValue sheet row c = JStr raw" and "raw \<noteq> []"
  shows "\<exists>m. parseOpMemberRow sheet row mapping = Inr m
     \<and> uniqueName m = JStr (toLowerCase raw) \<and> displayName m = JStr raw"
proof -
  from readFields_name [OF assms(1-4), of emptyMember] obtain m where
    m: "readFields sheet row mapping emptyMember = Inr m"
    and n: "uniqueName m = JStr raw"
    using assms(5) by auto
  show ?thesis
    using m n assms(6) by (simp add: parseOpMemberRow_def truthy_def)
qed

text \<open>
  Against claim C6 as stated: for the name \<^verbatim>\<open>" Maverick "\<close> the identity key is
  \<^verbatim>\<open>" maverick "\<close>, with its white space, and not the trimmed \<^verbatim>\<open>"maverick"\<close>.
\<close>

theorem padded_name_is_not_trimmed:
  "loadColumnMap paddedNameSheet 1 = Inr [(K_uniqueName, 0)]
   \<and> parseOpMemberRow paddedNameSheet 2 [(K_uniqueName, 0)] =
       Inr (emptyMember\<lparr>uniqueName := JStr '' maverick '', displayName := JStr '' Maverick ''\<rparr>)
   \<and> toLowerCase (trim '' Maverick '') = ''maverick''"
  by code_simp

theorem parseOpMemberRow_lowercases_name_witness:
  "\<exists>m. parseOpMemberRow paddedNameSheet 2 [(K_uniqueName, 0)] = Inr m
     \<and> uniqueName m = JStr '' maverick '' \<and> displayName m = JStr '' Maverick ''"
proof -
  have h: "2 < rowCount paddedNameSheet"
    "\<forall>kc \<in> set [(K_uniqueName, 0)]. snd kc < columnCount paddedNameSheet"
    "distinct (map fst [(K_uniqueName, 0::nat)])"
    "(K_uniqueName, 0) \<in> set [(K_uniqueName, 0::nat)]"
    "cellValue paddedNameSheet 2 0 = JStr '' Maverick ''"
    "'' Maverick '' \<noteq> []"
    by (simp_all add: paddedNameSheet_def cellValue_def)
  have l: "toLowerCase '' Maverick '' = '' maverick ''" by code_simp
  show ?thesis
    using parseOpMemberRow_lowercases_name [OF h] unfolding l .
qed

subsection \<open>The final filter\<close>

lemma looseEq_null: "looseEq v JNull = (v = JNull \<or> v = JUndefined)"
  by (cases v) (simp_all add: looseEq_def)

text \<open>
  Claim C5, as the code has it. In every op that a completed \<open>run\<close> writes, no member
  has a missing identity key: none is \<^verbatim>\<open>null\<close> or \<^verbatim>\<open>undefined\<close>. (The filter of line
  246 tests \<^verbatim>\<open>!= null\<close>; it keeps the empty string.)
\<close>

theorem written_members_have_a_name:
  assumes "run p sheetsByIndex = Inr r"
    and "op \<in> set (opsWritten r)" and "m \<in> set (members op)"
  shows "uniqueName m \<noteq> JNull \<and> uniqueName m \<noteq> JUndefined"
proof -
  from assms(1) obtain ops where "opsWritten r = map filterMembers ops"
    by (auto simp: run_def Let_def split: sum.splits)
  with assms(2) obtain op0 where "op = filterMembers op0" by auto
  with assms(3) show ?thesis
    by (simp add: filterMembers_def looseEq_null)
qed

text \<open>
  Against claim C5 as stated: a member row whose name cell is the empty string is
  still in its op after the filter.
\<close>

theorem empty_name_survives_filter:
  "map_sum id writtenNames (run newParser [blankNameSheet]) = Inr [[JStr []]]"
  by code_simp

text \<open>The theorem on \<open>trailingBlankSheet\<close>: the empty row below Maverick's is a member
  with the name \<^verbatim>\<open>null\<close>, and the filter removes it.\<close>

theorem written_members_have_a_name_witness:
  "map (map uniqueName \<circ> members) (opsOfSheet trailingBlankSheet)
      = [[JStr ''maverick'', JNull]]
   \<and> (\<exists>r. run newParser [trailingBlankSheet] = Inr r
     \<and> writtenNames r = [[JStr ''maverick'']]
     \<and> list_all (\<lambda>op. list_all (\<lambda>m. uniqueName m \<noteq> JNull \<and> uniqueName m \<noteq> JUndefined)
          (members op)) (opsWritten r))"
proof -
  have ops: "map (map uniqueName \<circ> members) (opsOfSheet trailingBlankSheet)
      = [[JStr ''maverick'', JNull]]"
    by code_simp
  have e: "map_sum id writtenNames (run newParser [trailingBlankSheet])
      = Inr [[JStr ''maverick'']]"
    by code_simp
  then obtain r where r: "run newParser [trailingBlankSheet] = Inr r"
    and w: "writtenNames r = [[JStr ''maverick'']]"
    by (cases "run newParser [trailingBlankSheet]") auto
  have "list_all (\<lambda>op. list_all (\<lambda>m. uniqueName m \<noteq> JNull \<and> uniqueName m \<noteq> JUndefined)
          (members op)) (opsWritten r)"
    using written_members_have_a_name [OF r] by (simp add: list_all_iff)
  with r w ops show ?thesis by blast
qed

subsection \<open>Block discovery and column maps\<close>

lemma strToNumber_Name: "strToNumber ''Name'' = None"
  by code_simp

lemma looseEq_Name: "looseEq v (JStr ''Name'') = (v = JStr ''Name'')"
  by (cases v) (auto simp: looseEq_def strToNumber_Name)

lemma scanRows_no_header:
  "0 < columnCount sheet \<Longrightarrow>
   \<forall>r \<in> set rows. r < rowCount sheet \<and> cellValue sheet r 0 \<noteq> JStr ''Name'' \<Longrightarrow>
   scanRows sheet cfg rows ops = Inr ops"
proof (induction rows)
  case Nil
  then show ?case by simp
next
  case (Cons r rows)
  have g: "getCell sheet (int r) 0 = Inr (cellValue sheet r 0)"
    using getCell_in_range [of r sheet 0] Cons.prems by simp
  show ?case
    using Cons by (simp add: g looseEq_Name)
qed

text \<open>
  A sheet with no \<^verbatim>\<open>Name\<close> cell in its first column has no ops: when the config of
  the sheet resolves, \<open>fromSheet\<close> returns the empty list.
\<close>

theorem no_header_no_ops:
  assumes "getOpConfig sheet = Inr cfg" and "0 < columnCount sheet"
    and "\<forall>r \<in> set [0..<rowCount sheet]. cellValue sheet r 0 \<noteq> JStr ''Name''"
  shows "fromSheet sheet = Inr []"
  using assms scanRows_no_header [of sheet "[0..<rowCount sheet]" cfg "[]"]
  by (simp add: fromSheet_def)

theorem no_header_no_ops_witness:
  "fromSheet paddedConfigSheet = Inr []"
proof -
  have a: "getOpConfig paddedConfigSheet = Inr defaultConfig" by code_simp
  have b: "0 < columnCount paddedConfigSheet" by code_simp
  have c: "\<forall>r \<in> set [0..<rowCount paddedConfigSheet].
      cellValue paddedConfigSheet r 0 \<noteq> JStr ''Name''" by code_simp
  show ?thesis by (rule no_header_no_ops [OF a b c])
qed

lemma findColumn_found:
  "findColumn sheet row header cols = Inr (Some c) \<Longrightarrow> c \<in> set cols"
  by (induction cols) (auto split: sum.splits if_splits)

lemma loadColumns_wellformed:
  "loadColumns sheet row keys cm = Inr cm1 \<Longrightarrow>
   distinct (map fst keys) \<Longrightarrow> distinct (map fst cm) \<Longrightarrow>
   fst ` set cm \<inter> fst ` set keys = {} \<Longrightarrow>
   \<forall>kc \<in> set cm. snd kc < columnCount sheet \<Longrightarrow>
   distinct (map fst cm1) \<and> (\<forall>kc \<in> set cm1. snd kc < columnCount sheet)"
proof (induction keys arbitrary: cm)
  case Nil
  then show ?case by simp
next
  case (Cons kh keys)
  obtain k h where kh: "kh = (k, h)" by (cases kh)
  have dk: "distinct (map fst keys)" and fresh: "k \<notin> fst ` set keys"
    using Cons.prems(2) kh by auto
  have knew: "k \<notin> fst ` set cm" using Cons.prems(4) kh by auto
  show ?case
  proof (cases "findColumn sheet row h [0..<columnCount sheet]")
    case (Inl e)
    with Cons.prems(1) kh show ?thesis by simp
  next
    case (Inr found)
    show ?thesis
    proof (cases found)
      case None
      with Inr Cons.prems(1) kh have run: "loadColumns sheet row keys cm = Inr cm1" by simp
      have "fst ` set cm \<inter> fst ` set keys = {}" using Cons.prems(4) by auto
      from Cons.IH [OF run dk Cons.prems(3) this Cons.prems(5)] show ?thesis .
    next
      case (Some c)
      with Inr Cons.prems(1) kh
      have run: "loadColumns sheet row keys (cm @ [(k, c)]) = Inr cm1" by simp
      have c: "c < columnCount sheet"
        using findColumn_found [of sheet row h "[0..<columnCount sheet]" c] Inr Some by simp
      have d: "distinct (map fst (cm @ [(k, c)]))" using Cons.prems(3) knew by auto
      have i: "fst ` set (cm @ [(k, c)]) \<inter> fst ` set keys = {}"
        using Cons.prems(4) fresh by auto
      have r: "\<forall>kc \<in> set (cm @ [(k, c)]). snd kc < columnCount sheet"
        using Cons.prems(5) c by auto
      from Cons.IH [OF run dk d i r] show ?thesis .
    qed
  qed
qed

text \<open>
  The column map \<open>loadColumnMap\<close> builds has one column per key, and every column is
  a column of the grid.
\<close>

theorem loadColumnMap_wellformed:
  assumes "loadColumnMap sheet row = Inr mapping"
  shows "distinct (map fst mapping) \<and> (\<forall>kc \<in> set mapping. snd kc < columnCount sheet)"
proof -
  have "distinct (map fst columNameMap)" by (simp add: columNameMap_def)
  from loadColumns_wellformed [OF assms [unfolded loadColumnMap_def] this]
  show ?thesis by simp
qed

theorem loadColumnMap_wellformed_witness:
  "loadColumnMap failedSheet 1 = Inr [(K_uniqueName, 0), (K_bolters, 2), (K_combatDeaths, 1)]
   \<and> distinct (map fst [(K_uniqueName, 0::nat), (K_bolters, 2), (K_combatDeaths, 1)])
   \<and> list_all (\<lambda>kc. snd kc < columnCount failedSheet)
        [(K_uniqueName, 0), (K_bolters, 2), (K_combatDeaths, 1)]"
proof -
  have a: "loadColumnMap failedSheet 1 = Inr [(K_uniqueName, 0), (K_bolters, 2), (K_combatDeaths, 1)]"
    by code_simp
  show ?thesis
    using loadColumnMap_wellformed [OF a] a by (simp add: list_all_iff)
qed

end
